theory Spec2Isabelle
  imports Complex_Main
begin

section \<open>Python values shared by the models\<close>

text \<open>
  The exceptions the modelled functions can raise. \<open>NonFinite\<close> is not a Python
  exception: the numeric models below work with exact real numbers in place of 32-bit floats,
  and they stop with \<open>NonFinite\<close> where the floating-point computation would leave the finite
  numbers (a division by zero, the square root of a negative number), so no such value is
  ever taken for a real number.
\<close>

datatype error = AssertionError | ZeroDivisionError | OverflowError | KeyError | TypeError
  | IndexError | ValueError | AttributeError | NonFinite

section \<open>\<open>DataManager.progress\<close> (neuralnet/utils.py)\<close>

text \<open>
  The wrapped object is any Python iterable: a list or tuple has a length, a generator has
  none. \<open>time.time()\<close> is an input of the model: \<open>clock k\<close> is the reading of its
  \<open>k\<close>-th call (counted from 0). What the generator does is recorded as a trace of events,
  the prints with the values formatted into them.
\<close>

record 'a iterable =
  elems :: "'a list"
  has_len :: bool

datatype 'a event =
    Print_progress string nat int real
  | Print_eta int real
  | Yield 'a
  | Print_done string int int int real

definition len :: "'a iterable \<Rightarrow> error + nat" where
  "len items = (if has_len items then Inr (length (elems items)) else Inl TypeError)"

text \<open>\<open>total or len(items)\<close>: \<open>len\<close> is called only when \<open>total\<close> is \<open>None\<close> or 0.\<close>

definition total_or_len :: "int option \<Rightarrow> 'a iterable \<Rightarrow> error + int" where
  "total_or_len n_total items =
     (case n_total of
        Some t \<Rightarrow> if t \<noteq> 0 then Inr t else map_sum id int (len items)
      | None \<Rightarrow> map_sum id int (len items))"

text \<open>\<open>divmod(x, 60)\<close> on a float.\<close>

definition divmod60 :: "real \<Rightarrow> int \<times> real" where
  "divmod60 x = (\<lfloor>x / 60\<rfloor>, x - 60 * of_int \<lfloor>x / 60\<rfloor>)"

text \<open>
  The \<open>for n, item in enumerate(items)\<close> loop, from index \<open>n\<close> on. The result is the
  trace and the exception that ended it, if any.
\<close>

fun progress_loop ::
  "string \<Rightarrow> int \<Rightarrow> real \<Rightarrow> (nat \<Rightarrow> real) \<Rightarrow> real \<Rightarrow> real \<Rightarrow> nat \<Rightarrow> 'a list
    \<Rightarrow> 'a event list \<times> error option" where
  "progress_loop desc tot min_delay clock t_start t_last n [] = ([], None)"
| "progress_loop desc tot min_delay clock t_start t_last n (item # rest) =
     (let t_now = clock (Suc n) in
      if t_now - t_last > min_delay then
        (if tot = 0 then ([], Some ZeroDivisionError)
         else
           let shown = Print_progress desc (n + 1) tot (real n / real_of_int tot * 100);
               eta = (if n > 0 then
                        (let t_done = t_now - t_start;
                             t_total = t_done / real n * real_of_int tot;
                             (mins, secs) = divmod60 (t_total - t_done)
                         in [Print_eta mins secs])
                      else []);
               (evs, err) = progress_loop desc tot min_delay clock t_start t_now (Suc n) rest
           in (shown # eta @ Yield item # evs, err))
      else
        (let (evs, err) = progress_loop desc tot min_delay clock t_start t_last (Suc n) rest
         in (Yield item # evs, err)))"

definition progress ::
  "'a iterable \<Rightarrow> string \<Rightarrow> int option \<Rightarrow> real \<Rightarrow> (nat \<Rightarrow> real)
    \<Rightarrow> 'a event list \<times> error option" where
  "progress items desc n_total min_delay clock =
     (case total_or_len n_total items of
        Inl e \<Rightarrow> ([], Some e)
      | Inr tot \<Rightarrow>
          (let t_start = clock 0;
               (evs, err) = progress_loop desc tot min_delay clock t_start 0 0 (elems items)
           in case err of
                Some e \<Rightarrow> (evs, Some e)
              | None \<Rightarrow>
                  (let (mins, secs) = divmod60 (clock (Suc (length (elems items))) - t_start)
                   in (evs @ [Print_done desc tot tot mins secs], None))))"

text \<open>The items a consumer of the generator receives.\<close>

fun yielded :: "'a event list \<Rightarrow> 'a list" where
  "yielded [] = []"
| "yielded (Yield x # evs) = x # yielded evs"
| "yielded (_ # evs) = yielded evs"

section \<open>\<open>DataManager.generate_in_background\<close> (neuralnet/utils.py)\<close>

text \<open>
  The generator starts one producer thread and is itself the consumer; the two share a
  \<open>queue.Queue(maxsize=num_cached)\<close>, whose \<open>put\<close> and \<open>get\<close> are atomic and block. The model
  is the interleaving of the two threads: a state of the pipeline, one step of either thread
  (\<open>None\<close> when the thread is blocked or has ended), and the run of a schedule, which names
  the thread the scheduler lets run next. The queue holds minibatches and, last, the sentinel;
  a minibatch is an array or a pair of arrays, never the string \<open>'end'\<close>, so the two are
  kept apart by type.
\<close>

datatype 'a entry = Item 'a | Sentinel

datatype 'a producer =
    Fetching              \<comment> \<open>at \<open>for item in generator\<close>\<close>
  | Putting 'a            \<comment> \<open>at \<open>queue.put(item)\<close>\<close>
  | Putting_sentinel      \<comment> \<open>at \<open>queue.put(sentinel)\<close>\<close>
  | Finished

datatype consumer =
    Getting               \<comment> \<open>at \<open>item = queue.get()\<close>\<close>
  | Stopped               \<comment> \<open>the loop has ended: the generator is exhausted\<close>

record 'a pipeline =
  source :: "'a list"     \<comment> \<open>what the wrapped generator has still to produce\<close>
  producer :: "'a producer"
  queue :: "'a entry list"
  consumer :: consumer
  observed :: "'a list"   \<comment> \<open>what the consumer has yielded so far\<close>

datatype thread = Producer | Consumer

text \<open>\<open>Queue.put\<close> blocks while the queue is full; a \<open>maxsize\<close> of 0 or less never is.\<close>

definition full :: "int \<Rightarrow> 'a entry list \<Rightarrow> bool" where
  "full maxsize q = (0 < maxsize \<and> maxsize \<le> int (length q))"

definition initial :: "'a list \<Rightarrow> 'a pipeline" where
  "initial src =
     \<lparr>source = src, producer = Fetching, queue = [], consumer = Getting, observed = []\<rparr>"

fun step :: "int \<Rightarrow> thread \<Rightarrow> 'a pipeline \<Rightarrow> 'a pipeline option" where
  "step maxsize Producer s =
     (case producer s of
        Fetching \<Rightarrow>
          (case source s of
             [] \<Rightarrow> Some (s\<lparr>producer := Putting_sentinel\<rparr>)
           | x # xs \<Rightarrow> Some (s\<lparr>source := xs, producer := Putting x\<rparr>))
      | Putting x \<Rightarrow>
          if full maxsize (queue s) then None
          else Some (s\<lparr>queue := queue s @ [Item x], producer := Fetching\<rparr>)
      | Putting_sentinel \<Rightarrow>
          if full maxsize (queue s) then None
          else Some (s\<lparr>queue := queue s @ [Sentinel], producer := Finished\<rparr>)
      | Finished \<Rightarrow> None)"
| "step maxsize Consumer s =
     (case consumer s of
        Stopped \<Rightarrow> None
      | Getting \<Rightarrow>
          (case queue s of
             [] \<Rightarrow> None
           | Item x # q \<Rightarrow> Some (s\<lparr>queue := q, observed := observed s @ [x]\<rparr>)
           | Sentinel # q \<Rightarrow> Some (s\<lparr>queue := q, consumer := Stopped\<rparr>)))"

text \<open>A scheduled thread that cannot step leaves the state as it is.\<close>

fun run :: "int \<Rightarrow> thread list \<Rightarrow> 'a pipeline \<Rightarrow> 'a pipeline" where
  "run maxsize [] s = s"
| "run maxsize (t # ts) s =
     run maxsize ts (case step maxsize t s of None \<Rightarrow> s | Some s' \<Rightarrow> s')"

text \<open>The minibatches among the entries of the queue, and the one the producer holds.\<close>

fun items_of :: "'a entry list \<Rightarrow> 'a list" where
  "items_of [] = []"
| "items_of (Item x # q) = x # items_of q"
| "items_of (Sentinel # q) = items_of q"

fun in_hand :: "'a producer \<Rightarrow> 'a list" where
  "in_hand (Putting x) = [x]"
| "in_hand _ = []"

text \<open>
  The number of steps the two threads have still to take: per minibatch not yet produced a
  fetch, a put and a get; then the end of the source, the put and the get of the sentinel.
\<close>

fun producer_steps :: "'a producer \<Rightarrow> nat \<Rightarrow> nat" where
  "producer_steps Fetching k = 2 * k + 2"
| "producer_steps (Putting x) k = 2 * k + 3"
| "producer_steps Putting_sentinel k = 1"
| "producer_steps Finished k = 0"

definition steps_left :: "'a pipeline \<Rightarrow> nat" where
  "steps_left s =
     producer_steps (producer s) (length (source s)) +
     (case consumer s of
        Stopped \<Rightarrow> 0
      | Getting \<Rightarrow>
          length (queue s) + length (in_hand (producer s)) + length (source s) +
          (if producer s = Finished then 0 else 1))"

text \<open>What holds of every state the pipeline reaches from \<open>initial src\<close>.\<close>

definition pipeline_inv :: "int \<Rightarrow> 'a list \<Rightarrow> 'a pipeline \<Rightarrow> bool" where
  "pipeline_inv maxsize src s \<longleftrightarrow>
     observed s @ items_of (queue s) @ in_hand (producer s) @ source s = src \<and>
     (0 < maxsize \<longrightarrow> int (length (queue s)) \<le> maxsize) \<and>
     (case producer s of
        Finished \<Rightarrow>
          source s = [] \<and>
          (case consumer s of
             Getting \<Rightarrow> queue s = map Item (items_of (queue s)) @ [Sentinel]
           | Stopped \<Rightarrow> queue s = [])
      | Putting_sentinel \<Rightarrow>
          source s = [] \<and> consumer s = Getting \<and> queue s = map Item (items_of (queue s))
      | _ \<Rightarrow> consumer s = Getting \<and> queue s = map Item (items_of (queue s)))"

section \<open>Tensors\<close>

text \<open>
  A numpy array or the value of a Theano variable: its shape, its elements in row-major
  order, and the broadcastable pattern of its Theano type, which decides where an elementwise
  operation may stretch a dimension of size 1. Elements are exact reals (see \<open>NonFinite\<close>).
\<close>

record tensor =
  shape :: "nat list"
  broadcastable :: "bool list"
  data :: "real list"

definition well_formed :: "tensor \<Rightarrow> bool" where
  "well_formed t \<longleftrightarrow>
     length (data t) = prod_list (shape t) \<and> length (broadcastable t) = length (shape t) \<and>
     (\<forall>(d, b) \<in> set (zip (shape t) (broadcastable t)). b \<longrightarrow> d = 1)"

text \<open>All indices of a shape in row-major order, and the offset of an index.\<close>

fun indices :: "nat list \<Rightarrow> nat list list" where
  "indices [] = [[]]"
| "indices (d # ds) = concat (map (\<lambda>i. map ((#) i) (indices ds)) [0..<d])"

fun ravel :: "nat list \<Rightarrow> nat list \<Rightarrow> nat" where
  "ravel (d # ds) (i # is) = i * prod_list ds + ravel ds is"
| "ravel _ _ = 0"

definition elem :: "tensor \<Rightarrow> nat list \<Rightarrow> real" where
  "elem t idx = data t ! ravel (shape t) idx"

definition tabulate :: "nat list \<Rightarrow> bool list \<Rightarrow> (nat list \<Rightarrow> real) \<Rightarrow> tensor" where
  "tabulate shp bc f = \<lparr>shape = shp, broadcastable = bc, data = map f (indices shp)\<rparr>"

text \<open>A value shared with the graph (\<open>theano.shared(array)\<close>): nothing is broadcastable.\<close>

definition array :: "nat list \<Rightarrow> real list \<Rightarrow> tensor" where
  "array shp xs = \<lparr>shape = shp, broadcastable = replicate (length shp) False, data = xs\<rparr>"

definition np_ones :: "nat list \<Rightarrow> tensor" where
  "np_ones shp = array shp (replicate (prod_list shp) 1)"

definition np_zeros :: "nat list \<Rightarrow> tensor" where
  "np_zeros shp = array shp (replicate (prod_list shp) 0)"

text \<open>Sequencing of computations that may raise.\<close>

definition bind :: "error + 'a \<Rightarrow> ('a \<Rightarrow> error + 'b) \<Rightarrow> error + 'b" where
  "bind m f = (case m of Inl e \<Rightarrow> Inl e | Inr x \<Rightarrow> f x)"

subsection \<open>Elementwise operations\<close>

definition elemwise :: "(real \<Rightarrow> real) \<Rightarrow> tensor \<Rightarrow> tensor" where
  "elemwise f t = t\<lparr>data := map f (data t)\<rparr>"

text \<open>
  A tensor of lower rank is padded on the left with broadcastable dimensions of size 1
  (\<open>pad_left\<close>). In each dimension the sizes of the operands that are not broadcastable there
  must agree; a broadcastable operand is read at position 0.
\<close>

definition pad_left :: "nat \<Rightarrow> tensor \<Rightarrow> tensor" where
  "pad_left n t =
     t\<lparr>shape := replicate (n - length (shape t)) 1 @ shape t,
       broadcastable := replicate (n - length (shape t)) True @ broadcastable t\<rparr>"

fun broadcast_dims ::
  "nat list \<Rightarrow> bool list \<Rightarrow> nat list \<Rightarrow> bool list \<Rightarrow> (nat list \<times> bool list) option" where
  "broadcast_dims [] [] [] [] = Some ([], [])"
| "broadcast_dims (d # ds) (b # bs) (e # es) (c # cs) =
     (if \<not> b \<and> \<not> c \<and> d \<noteq> e then None
      else case broadcast_dims ds bs es cs of
             None \<Rightarrow> None
           | Some (shp, bc) \<Rightarrow> Some ((if b then e else d) # shp, (b \<and> c) # bc))"
| "broadcast_dims _ _ _ _ = None"

definition project :: "bool list \<Rightarrow> nat list \<Rightarrow> nat list" where
  "project bc idx = map (\<lambda>(b, i). if b then 0 else i) (zip bc idx)"

definition elemwise2 :: "(real \<Rightarrow> real \<Rightarrow> real) \<Rightarrow> tensor \<Rightarrow> tensor \<Rightarrow> error + tensor" where
  "elemwise2 f a b =
     (let n = max (length (shape a)) (length (shape b));
          a' = pad_left n a; b' = pad_left n b
      in case broadcast_dims (shape a') (broadcastable a') (shape b') (broadcastable b') of
           None \<Rightarrow> Inl ValueError
         | Some (shp, bc) \<Rightarrow>
             Inr (tabulate shp bc
                   (\<lambda>idx. f (elem a' (project (broadcastable a') idx))
                             (elem b' (project (broadcastable b') idx)))))"

text \<open>
  Division and square root leave the finite numbers at a zero divisor and at a negative
  argument.
\<close>

definition T_true_div :: "tensor \<Rightarrow> tensor \<Rightarrow> error + tensor" where
  "T_true_div a b =
     (if 0 \<in> set (data b) then Inl NonFinite else elemwise2 (\<lambda>x y. x / y) a b)"

definition T_sqrt :: "tensor \<Rightarrow> error + tensor" where
  "T_sqrt t = (if \<exists>x \<in> set (data t). x < 0 then Inl NonFinite else Inr (elemwise sqrt t))"

definition T_sqr :: "tensor \<Rightarrow> tensor" where
  "T_sqr t = elemwise (\<lambda>x. x * x) t"

definition T_clip :: "tensor \<Rightarrow> real \<Rightarrow> real \<Rightarrow> tensor" where
  "T_clip t lo hi = elemwise (\<lambda>x. if x < lo then lo else if x > hi then hi else x) t"

subsection \<open>Reductions\<close>

text \<open>
  \<open>kept axes xs\<close> are the entries of a shape or of an index at the positions that are not
  reduced; \<open>members t axes k\<close> are the elements of \<open>t\<close> that are reduced into position \<open>k\<close>.
  The mean of no elements is 0/0.
\<close>

definition kept :: "nat list \<Rightarrow> 'a list \<Rightarrow> 'a list" where
  "kept axes xs = map snd (filter (\<lambda>(i, x). i \<notin> set axes) (enumerate 0 xs))"

definition members :: "tensor \<Rightarrow> nat list \<Rightarrow> nat list \<Rightarrow> real list" where
  "members t axes k = map (elem t) (filter (\<lambda>idx. kept axes idx = k) (indices (shape t)))"

definition mean_of :: "real list \<Rightarrow> real" where
  "mean_of xs = sum_list xs / real (length xs)"

definition var_of :: "real list \<Rightarrow> real" where
  "var_of xs = mean_of (map (\<lambda>x. (x - mean_of xs) * (x - mean_of xs)) xs)"

definition squashed :: "nat list \<Rightarrow> nat list \<Rightarrow> nat list" where
  "squashed axes shp = map (\<lambda>(i, d). if i \<in> set axes then 1 else d) (enumerate 0 shp)"

definition squashed_pattern :: "nat list \<Rightarrow> bool list \<Rightarrow> bool list" where
  "squashed_pattern axes bc = map (\<lambda>(i, b). i \<in> set axes \<or> b) (enumerate 0 bc)"

text \<open>With \<open>keepdims=True\<close> the reduced dimensions stay, with size 1 and broadcastable.\<close>

definition reduce ::
  "(real list \<Rightarrow> real) \<Rightarrow> tensor \<Rightarrow> nat list \<Rightarrow> bool \<Rightarrow> error + tensor" where
  "reduce f t axes keepdims =
     (if \<exists>a \<in> set axes. length (shape t) \<le> a then Inl ValueError
      else if prod_list (shape t) = 0 \<and> prod_list (kept axes (shape t)) \<noteq> 0 then Inl NonFinite
      else Inr \<lparr>shape = (if keepdims then squashed axes (shape t) else kept axes (shape t)),
                broadcastable = (if keepdims then squashed_pattern axes (broadcastable t)
                                 else kept axes (broadcastable t)),
                data = map (\<lambda>k. f (members t axes k)) (indices (kept axes (shape t)))\<rparr>)"

definition T_mean :: "tensor \<Rightarrow> nat list \<Rightarrow> bool \<Rightarrow> error + tensor" where
  "T_mean t axes keepdims = reduce mean_of t axes keepdims"

definition T_var :: "tensor \<Rightarrow> nat list \<Rightarrow> bool \<Rightarrow> error + tensor" where
  "T_var t axes keepdims = reduce var_of t axes keepdims"

subsection \<open>Shape operations\<close>

text \<open>
  \<open>dimshuffle\<close> with a pattern of axes and \<open>'x'\<close> (\<open>None\<close>): an axis that the pattern drops
  must be broadcastable.
\<close>

definition dimshuffle :: "tensor \<Rightarrow> nat option list \<Rightarrow> error + tensor" where
  "dimshuffle t pattern =
     (let n = length (shape t); used = map the (filter (\<lambda>p. p \<noteq> None) pattern)
      in if (\<exists>a \<in> set used. n \<le> a) \<or>
            (\<exists>a \<in> set [0..<n]. a \<notin> set used \<and> \<not> broadcastable t ! a) \<or>
            \<not> distinct used
         then Inl ValueError
         else Inr (tabulate
                    (map (\<lambda>p. case p of None \<Rightarrow> 1 | Some a \<Rightarrow> shape t ! a) pattern)
                    (map (\<lambda>p. case p of None \<Rightarrow> True | Some a \<Rightarrow> broadcastable t ! a) pattern)
                    (\<lambda>idx. elem t
                       (map (\<lambda>a. case find (\<lambda>(p, i). p = Some a) (zip pattern idx) of
                                   None \<Rightarrow> 0 | Some (p, i) \<Rightarrow> i) [0..<n]))))"

text \<open>
  \<open>reshape\<close> to symbolic sizes, one of which may be \<open>-1\<close> (\<open>None\<close>): nothing of the result is
  broadcastable.
\<close>

definition reshape :: "tensor \<Rightarrow> nat option list \<Rightarrow> error + tensor" where
  "reshape t shp =
     (let known = prod_list (map the (filter (\<lambda>d. d \<noteq> None) shp));
          total = prod_list (shape t);
          holes = length (filter (\<lambda>d. d = None) shp)
      in if 1 < holes \<or> (holes = 1 \<and> (known = 0 \<or> total mod known \<noteq> 0)) \<or>
            (holes = 0 \<and> known \<noteq> total)
         then Inl ValueError
         else Inr \<lparr>shape = map (\<lambda>d. case d of None \<Rightarrow> total div known | Some k \<Rightarrow> k) shp,
                   broadcastable = replicate (length shp) False,
                   data = data t\<rparr>)"

text \<open>\<open>flatten(2)\<close> of a tensor of rank 2 or more.\<close>

definition flatten2 :: "tensor \<Rightarrow> error + tensor" where
  "flatten2 t =
     (case shape t of
        d # e # ds \<Rightarrow>
          Inr \<lparr>shape = [d, prod_list (e # ds)],
                broadcastable = [hd (broadcastable t), list_all id (tl (broadcastable t))],
                data = data t\<rparr>
      | _ \<Rightarrow> Inl ValueError)"

text \<open>The transpose \<open>.T\<close> and the product \<open>T.dot\<close> of matrices; \<open>T.nlinalg.diag\<close> of a vector.\<close>

definition transpose_T :: "tensor \<Rightarrow> error + tensor" where
  "transpose_T t =
     (case shape t of
        [r, c] \<Rightarrow> Inr (tabulate [c, r] (rev (broadcastable t)) (\<lambda>idx. elem t (rev idx)))
      | _ \<Rightarrow> Inl ValueError)"

definition T_dot :: "tensor \<Rightarrow> tensor \<Rightarrow> error + tensor" where
  "T_dot a b =
     (case (shape a, shape b) of
        ([r, k], [k', c]) \<Rightarrow>
          if k \<noteq> k' then Inl ValueError
          else Inr (tabulate [r, c] [hd (broadcastable a), last (broadcastable b)]
                     (\<lambda>idx. sum_list (map (\<lambda>j. elem a [idx ! 0, j] * elem b [j, idx ! 1]) [0..<k])))
      | _ \<Rightarrow> Inl ValueError)"

definition T_nlinalg_diag :: "tensor \<Rightarrow> error + tensor" where
  "T_nlinalg_diag v =
     (case shape v of
        [n] \<Rightarrow> Inr (tabulate [n, n] [False, False]
                     (\<lambda>idx. if idx ! 0 = idx ! 1 then elem v [idx ! 0] else 0))
      | _ \<Rightarrow> Inl ValueError)"

text \<open>\<open>T.ones_like\<close> and \<open>T.zeros_like\<close>.\<close>

definition T_ones_like :: "tensor \<Rightarrow> tensor" where
  "T_ones_like t = elemwise (\<lambda>x. 1) t"

definition T_zeros_like :: "tensor \<Rightarrow> tensor" where
  "T_zeros_like t = elemwise (\<lambda>x. 0) t"

subsection \<open>Batch normalization of Theano\<close>

text \<open>
  \<open>theano.tensor.nnet.bn.batch_normalization_train\<close> and \<open>batch_normalization_test\<close>, after
  the equations their documentation gives:
  \<^verbatim>\<open>
    mean = inputs.mean(axes, keepdims=True)
    var = inputs.var(axes, keepdims=True)
    invstd = T.inv(T.sqrt(var + epsilon))
    out = (inputs - mean) * gamma * invstd + beta
    m = T.cast(T.prod(inputs.shape) / T.prod(mean.shape), 'float32')
    running_mean = running_mean * (1 - running_average_factor) +
                   mean * running_average_factor
    running_var = running_var * (1 - running_average_factor) +
                  (m / (m - 1)) * var * running_average_factor
  \<close>
  and, for the test function, \<open>(inputs - mean) * gamma / T.sqrt(var + epsilon) + beta\<close>.
  The axes \<open>'per-activation'\<close> are \<open>(0,)\<close>, the axes \<open>'spatial'\<close> are 0 and all from 2 on.
  A parameter has one dimension for each axis that is not normalized, or the rank of the
  inputs with size 1 on the normalized axes; both functions refuse an \<open>epsilon\<close> below
  \<open>1e-5\<close>. The variance is a mean of squares, so with such an \<open>epsilon\<close> the training function
  divides by a positive number; with one element for each statistic \<open>m - 1\<close> is 0.
\<close>

datatype bn_axes = Per_activation | Spatial | Axes "nat list"

definition normalization_axes :: "bn_axes \<Rightarrow> nat \<Rightarrow> nat list" where
  "normalization_axes ax ndim =
     (case ax of Per_activation \<Rightarrow> [0] | Spatial \<Rightarrow> 0 # [2..<ndim] | Axes as \<Rightarrow> as)"

definition param_ok :: "tensor \<Rightarrow> nat list \<Rightarrow> tensor \<Rightarrow> bool" where
  "param_ok x axes p \<longleftrightarrow>
     shape p = kept axes (shape x) \<or> shape p = squashed axes (shape x)"

definition param_index :: "nat list \<Rightarrow> tensor \<Rightarrow> nat list \<Rightarrow> nat list" where
  "param_index axes p idx =
     (if length (shape p) = length idx
      then map (\<lambda>(i, j). if i \<in> set axes then 0 else j) (enumerate 0 idx)
      else kept axes idx)"

definition batch_means :: "tensor \<Rightarrow> nat list \<Rightarrow> real list" where
  "batch_means x axes = map (\<lambda>k. mean_of (members x axes k)) (indices (kept axes (shape x)))"

definition batch_vars :: "tensor \<Rightarrow> nat list \<Rightarrow> real list" where
  "batch_vars x axes = map (\<lambda>k. var_of (members x axes k)) (indices (kept axes (shape x)))"

definition bn_args_ok :: "tensor \<Rightarrow> nat list \<Rightarrow> tensor list \<Rightarrow> real \<Rightarrow> bool" where
  "bn_args_ok x axes ps eps \<longleftrightarrow>
     axes \<noteq> [] \<and> (\<forall>a \<in> set axes. a < length (shape x)) \<and>
     (\<forall>p \<in> set ps. param_ok x axes p \<and> length (shape p) = length (shape (hd ps))) \<and>
     1 / 100000 \<le> eps"

text \<open>
  \<open>(x - mean) * scale + shift\<close> with the three parameters broadcast over the normalized axes.
\<close>

definition normalize :: "tensor \<Rightarrow> nat list \<Rightarrow> tensor \<Rightarrow> tensor \<Rightarrow> tensor \<Rightarrow> tensor" where
  "normalize x axes mean scale shift =
     tabulate (shape x) (broadcastable x)
       (\<lambda>idx. (elem x idx - elem mean (param_index axes mean idx)) *
              elem scale (param_index axes scale idx) +
              elem shift (param_index axes shift idx))"

definition batch_normalization_train ::
  "tensor \<Rightarrow> tensor \<Rightarrow> tensor \<Rightarrow> bn_axes \<Rightarrow> real \<Rightarrow> error + tensor \<times> tensor \<times> tensor" where
  "batch_normalization_train x g b ax eps =
     (let axes = normalization_axes ax (length (shape x)) in
      if \<not> bn_args_ok x axes [g, b] eps then Inl ValueError
      else if prod_list (shape x) = 0 then Inl NonFinite
      else
        let mean = g\<lparr>data := batch_means x axes\<rparr>;
            invstd = g\<lparr>data := map (\<lambda>v. 1 / sqrt (v + eps)) (batch_vars x axes)\<rparr>
        in Inr (normalize x axes mean
                  (g\<lparr>data := map (\<lambda>(s, i). s * i) (zip (data g) (data invstd))\<rparr>) b,
                mean, invstd))"

definition batch_normalization_train_running ::
  "tensor \<Rightarrow> tensor \<Rightarrow> tensor \<Rightarrow> bn_axes \<Rightarrow> real \<Rightarrow> real \<Rightarrow> tensor \<Rightarrow> tensor
    \<Rightarrow> error + tensor \<times> tensor \<times> tensor \<times> tensor \<times> tensor" where
  "batch_normalization_train_running x g b ax eps factor rm rv =
     (let axes = normalization_axes ax (length (shape x)) in
      if \<not> bn_args_ok x axes [g, b, rm, rv] eps then Inl ValueError
      else
        bind (batch_normalization_train x g b ax eps) (\<lambda>(out, mean, invstd).
          let m = real (prod_list (shape x)) / real (prod_list (shape g)) in
          if m = 1 then Inl NonFinite
          else
            Inr (out, mean, invstd,
                 rm\<lparr>data := map (\<lambda>(r, mu). r * (1 - factor) + mu * factor)
                                (zip (data rm) (batch_means x axes))\<rparr>,
                 rv\<lparr>data := map (\<lambda>(r, v). r * (1 - factor) + m / (m - 1) * v * factor)
                                (zip (data rv) (batch_vars x axes))\<rparr>)))"

definition batch_normalization_test ::
  "tensor \<Rightarrow> tensor \<Rightarrow> tensor \<Rightarrow> tensor \<Rightarrow> tensor \<Rightarrow> bn_axes \<Rightarrow> real \<Rightarrow> error + tensor" where
  "batch_normalization_test x g b mean var ax eps =
     (let axes = normalization_axes ax (length (shape x)) in
      if \<not> bn_args_ok x axes [g, b, mean, var] eps then Inl ValueError
      else if \<exists>v \<in> set (data var). v + eps \<le> 0 then Inl NonFinite
      else
        Inr (normalize x axes mean
               (g\<lparr>data := map (\<lambda>(s, v). s / sqrt (v + eps)) (zip (data g) (data var))\<rparr>) b))"

section \<open>Layers (neuralnet/normalization.py)\<close>

subsection \<open>Activations and \<open>utils.function\<close>\<close>

text \<open>
  An activation is a Python callable: a function of Theano, one of \<open>neuralnet/utils.py\<close> built
  on Theano's, or one the caller passes. The model names the callables (\<open>is\<close> compares them
  by identity) and takes what the ones of Theano and of the caller compute from a parameter
  \<open>lib\<close>; \<open>utils.linear\<close> returns its argument. Keyword arguments are numbers by name.
\<close>

datatype callable =
    T_nnet_relu | T_nnet_sigmoid | T_tanh | Lrelu | T_nnet_softmax | Linear | T_nnet_elu
  | Ramp | Maxout | T_sin | T_cos | Prelu | Other nat

type_synonym kwargs = "(string \<times> real) list"

type_synonym library = "callable \<Rightarrow> tensor \<Rightarrow> kwargs \<Rightarrow> error + tensor"

definition call :: "library \<Rightarrow> callable \<Rightarrow> tensor \<Rightarrow> kwargs \<Rightarrow> error + tensor" where
  "call lib f x kw =
     (case f of
        Linear \<Rightarrow> if kw = [] then Inr x else Inl TypeError
      | _ \<Rightarrow> lib f x kw)"

text \<open>The dictionary \<open>function\<close> at the end of \<open>neuralnet/utils.py\<close>.\<close>

definition utils_function :: "(string \<times> callable) list" where
  "utils_function =
     [(''relu'', T_nnet_relu), (''sigmoid'', T_nnet_sigmoid), (''tanh'', T_tanh),
      (''lrelu'', Lrelu), (''softmax'', T_nnet_softmax), (''linear'', Linear),
      (''elu'', T_nnet_elu), (''ramp'', Ramp), (''maxout'', Maxout), (''sin'', T_sin),
      (''cos'', T_cos)]"

definition subscript :: "(string \<times> 'v) list \<Rightarrow> string \<Rightarrow> error + 'v" where
  "subscript d k = (case map_of d k of None \<Rightarrow> Inl KeyError | Some v \<Rightarrow> Inr v)"

text \<open>
  The \<open>activation\<close> argument of a constructor is a name or a callable:
  \<open>utils.function[activation] if not callable(activation) else activation\<close>.
\<close>

datatype activation_arg = Name string | Callable callable

definition resolve :: "activation_arg \<Rightarrow> error + callable" where
  "resolve activation =
     (case activation of Name s \<Rightarrow> subscript utils_function s | Callable f \<Rightarrow> Inr f)"

subsection \<open>The state of a layer\<close>

text \<open>
  \<open>layer\<close> holds what the normalization layers read and write of their base class \<open>Layer\<close>
  (\<open>neuralnet/layers.py\<close>, which is not among the sources); the constructors below take
  \<open>Layer.__init__\<close> as a parameter. The lists of parameters hold the names of the shared
  variables. \<open>norm_layer\<close> holds the attributes that \<open>BatchNormLayer\<close> and \<open>GroupNormLayer\<close>
  both set; a shared variable is the field with its current value, and \<open>alpha\<close> is \<open>None\<close>
  while the attribute does not exist. The description strings are left out.
\<close>

record layer =
  input_shape :: "nat option list"
  layer_name :: string
  training_flag :: bool
  params :: "string list"
  trainable :: "string list"
  regularizable :: "string list"

record norm_layer = layer +
  epsilon :: real
  activation :: callable
  kwargs :: kwargs
  gamma_values :: tensor
  gamma :: tensor
  beta_values :: tensor
  beta :: tensor
  alpha :: "real option"

record batch_norm_layer = norm_layer +
  running_average_factor :: real
  no_scale :: bool
  axes :: "nat list"
  self_shape :: "nat list"
  running_mean :: tensor
  running_var :: tensor

record batch_renorm_layer = batch_norm_layer +
  r_max :: real
  d_max :: real

record group_norm_layer = norm_layer +
  groups :: int

text \<open>\<open>input_shape[1]\<close> as a number, and \<open>np.ones(shape)\<close> on a shape that may hold \<open>None\<close>.\<close>

definition channels :: "nat option list \<Rightarrow> error + nat" where
  "channels shp =
     (if length shp < 2 then Inl IndexError
      else case shp ! 1 of None \<Rightarrow> Inl TypeError | Some c \<Rightarrow> Inr c)"

definition known_shape :: "nat option list \<Rightarrow> error + nat list" where
  "known_shape shp = (if None \<in> set shp then Inl TypeError else Inr (map the shp))"

text \<open>
  The keyword arguments of a call of the activation: \<open>kwargs['alpha']\<close> is the shared
  variable \<open>alpha\<close>, read when the activation is called.
\<close>

definition call_kwargs :: "'a norm_layer_scheme \<Rightarrow> kwargs" where
  "call_kwargs l =
     (case alpha l of
        None \<Rightarrow> kwargs l
      | Some a \<Rightarrow> (''alpha'', a) # filter (\<lambda>(k, v). k \<noteq> ''alpha'') (kwargs l))"

subsection \<open>\<open>GroupNormLayer.__init__\<close>\<close>

text \<open>
  The assertion compares the true quotient \<open>input_shape[1] / groups\<close>, a float, with the
  floor quotient \<open>input_shape[1] // groups\<close>, an integer. The true quotient of two Python
  integers is the exact quotient rounded to the nearest double, ties to the even significand:
  for a quotient \<open>n / d\<close> of positive integers with \<open>2^e \<le> n / d < 2^(e + 1)\<close> the
  doubles around it are the multiples of \<open>2^p\<close>, \<open>p = max (e - 52) (-1074)\<close>. The rounded
  quotient is \<open>m * 2^p\<close> with \<open>m \<le> 2^53\<close>; it is \<open>2^1024\<close> or more, too large for a float
  (\<open>OverflowError\<close>), when \<open>p\<close> is above 971, or is 971 with \<open>m = 2^53\<close>. A divisor 0
  raises \<open>ZeroDivisionError\<close>. The comparison of a float with an integer is exact.
\<close>

function bit_length :: "int \<Rightarrow> nat" where
  "bit_length n = (if n \<le> 0 then 0 else Suc (bit_length (n div 2)))"
  by pat_completeness auto
termination
  by (relation "measure nat") auto

declare bit_length.simps [simp del]

definition pow2 :: "int \<Rightarrow> real" where
  "pow2 e = (if 0 \<le> e then 2 ^ nat e else 1 / 2 ^ nat (- e))"

definition round_half_even :: "real \<Rightarrow> int" where
  "round_half_even x =
     (let f = \<lfloor>x\<rfloor>; r = x - of_int f
      in if r < 1 / 2 then f else if 1 / 2 < r then f + 1 else if even f then f else f + 1)"

text \<open>The exponent \<open>e\<close> of a quotient \<open>n / d\<close> of positive integers.\<close>

definition float_exponent :: "int \<Rightarrow> int \<Rightarrow> int" where
  "float_exponent n d =
     (let k = int (bit_length n) - int (bit_length d)
      in if of_int d * pow2 k \<le> (of_int n :: real) then k else k - 1)"

definition round_to_double :: "int \<Rightarrow> int \<Rightarrow> error + real" where
  "round_to_double n d =
     (if n = 0 then Inr 0
      else
        let p = max (float_exponent n d - 52) (- 1074);
            m = round_half_even (of_int n / of_int d / pow2 p)
        in if 971 < p \<or> (p = 971 \<and> m = 2 ^ 53) then Inl OverflowError
           else Inr (of_int m * pow2 p))"

text \<open>\<open>a / b\<close> on integers.\<close>

definition int_true_div :: "int \<Rightarrow> int \<Rightarrow> error + real" where
  "int_true_div a b =
     (if b = 0 then Inl ZeroDivisionError
      else bind (round_to_double \<bar>a\<bar> \<bar>b\<bar>)
             (\<lambda>y. Inr (if (a < 0) \<noteq> (b < 0) then - y else y)))"

text \<open>
  \<open>input_shape[1] / groups == input_shape[1] // groups\<close>. The assertion reads the argument
  \<open>input_shape\<close>, the arrays of ones and zeros the attribute that the base constructor has
  set; \<open>np.ones\<close> of an unknown channel count is taken to raise \<open>TypeError\<close>.
\<close>

definition groups_divide :: "nat \<Rightarrow> int \<Rightarrow> error + bool" where
  "groups_divide c g =
     bind (int_true_div (int c) g) (\<lambda>q. Inr (q = real_of_int (int c div g)))"

definition GroupNormLayer_init ::
  "(nat option list \<Rightarrow> string \<Rightarrow> error + layer) \<Rightarrow> nat option list \<Rightarrow> string \<Rightarrow> int \<Rightarrow> real
    \<Rightarrow> activation_arg \<Rightarrow> kwargs \<Rightarrow> error + group_norm_layer" where
  "GroupNormLayer_init Layer_init shp name g eps act kw =
     bind (channels shp) (\<lambda>c.
     bind (groups_divide c g) (\<lambda>ok.
     if \<not> ok then Inl AssertionError
     else
       bind (Layer_init shp name) (\<lambda>base.
       bind (resolve act) (\<lambda>f.
       bind (channels (input_shape base)) (\<lambda>c'.
         let prelu = (act = Name ''prelu'');
             extra = (if prelu then [name @ ''/alpha''] else [])
         in Inr \<lparr>input_shape = input_shape base, layer_name = layer_name base,
                 training_flag = training_flag base,
                 params = params base @ [name @ ''/gamma'', name @ ''/beta''] @ extra,
                 trainable = trainable base @ [name @ ''/gamma'', name @ ''/beta''] @ extra,
                 regularizable = regularizable base @ [name @ ''/gamma''],
                 epsilon = eps, activation = f,
                 kwargs = (if prelu then filter (\<lambda>(k, v). k \<noteq> ''alpha'') kw @ [(''alpha'', 1 / 10)]
                           else kw),
                 gamma_values = np_ones [c'], gamma = np_ones [c'],
                 beta_values = np_zeros [c'], beta = np_zeros [c'],
                 alpha = (if prelu then Some (1 / 10) else None),
                 groups = g\<rparr>)))))"

subsection \<open>\<open>BatchNormLayer.__init__\<close>\<close>

definition BatchNormLayer_init ::
  "(nat option list \<Rightarrow> string \<Rightarrow> error + layer) \<Rightarrow> nat option list \<Rightarrow> string \<Rightarrow> real \<Rightarrow> real
    \<Rightarrow> string \<Rightarrow> activation_arg \<Rightarrow> bool \<Rightarrow> kwargs \<Rightarrow> error + batch_norm_layer" where
  "BatchNormLayer_init Layer_init shp name eps factor axes_arg act noscale kw =
     bind (Layer_init shp name) (\<lambda>base.
     bind (resolve act) (\<lambda>f.
     bind (if axes_arg = ''spatial''
           then bind (channels (input_shape base)) (\<lambda>c. Inr [Some c])
           else Inr (drop 1 (input_shape base))) (\<lambda>s.
     bind (known_shape s) (\<lambda>s'.
       let prelu = (act = Name ''prelu'');
           extra = (if prelu then [name @ ''/alpha''] else [])
       in Inr \<lparr>input_shape = input_shape base, layer_name = layer_name base,
               training_flag = training_flag base,
               params = params base @
                 [name @ ''/running_mean'', name @ ''/running_var'', name @ ''/gamma'',
                  name @ ''/beta''] @ extra,
               trainable = trainable base @
                 (if noscale then [name @ ''/beta''] else [name @ ''/beta'', name @ ''/gamma''])
                 @ extra,
               regularizable = regularizable base @ (if \<not> noscale then [name @ ''/gamma''] else []),
               epsilon = eps, activation = f,
               kwargs = (if prelu then filter (\<lambda>(k, v). k \<noteq> ''alpha'') kw @ [(''alpha'', 1 / 10)]
                         else kw),
               gamma_values = np_ones s', gamma = np_ones s',
               beta_values = np_zeros s', beta = np_zeros s',
               alpha = (if prelu then Some (1 / 10) else None),
               running_average_factor = factor, no_scale = noscale,
               axes = (if axes_arg = ''spatial'' then 0 # [2..<length shp] else [0]),
               self_shape = s',
               running_mean = np_zeros s', running_var = np_zeros s'\<rparr>))))"

subsection \<open>\<open>reset\<close>\<close>

text \<open>
  The result is the exception raised, if any, and the layer as the call leaves it: the two
  \<open>set_value\<close> calls come first, the lookup \<open>utils.function['prelu']\<close> after them.
\<close>

definition set_alpha :: "'a norm_layer_scheme \<Rightarrow> error option \<times> 'a norm_layer_scheme" where
  "set_alpha l =
     (case alpha l of
        None \<Rightarrow> (Some AttributeError, l)
      | Some a \<Rightarrow> (None, l\<lparr>alpha := Some (1 / 10)\<rparr>))"

definition BatchNormLayer_reset ::
  "'a batch_norm_layer_scheme \<Rightarrow> error option \<times> 'a batch_norm_layer_scheme" where
  "BatchNormLayer_reset l =
     (let l1 = l\<lparr>gamma := gamma_values l\<rparr>;
          l2 = l1\<lparr>beta := beta_values l1\<rparr>
      in case subscript utils_function ''prelu'' of
           Inl e \<Rightarrow> (Some e, l2)
         | Inr prelu \<Rightarrow> if activation l2 = prelu then set_alpha l2 else (None, l2))"

subsection \<open>\<open>BatchNormLayer\<close>: the forward pass\<close>

text \<open>
  A forward pass in training mode returns the output and the layer with the default updates
  of the two clones applied, which the compiled function performs only when it has
  computed its outputs. The line \<open>out += 0 * (running_mean + running_var)\<close> ties the clones
  to the graph of the output and adds zero to it.
\<close>

definition BatchNormLayer_batch_normalization_train ::
  "'a batch_norm_layer_scheme \<Rightarrow> tensor \<Rightarrow> error + tensor \<times> 'a batch_norm_layer_scheme" where
  "BatchNormLayer_batch_normalization_train l input =
     bind (batch_normalization_train_running input (gamma l) (beta l) (Axes (axes l)) (epsilon l)
             (running_average_factor l) (running_mean l) (running_var l))
       (\<lambda>(out, mean, invstd, mean_new, var_new).
          Inr (out, l\<lparr>running_mean := mean_new, running_var := var_new\<rparr>))"

definition BatchNormLayer_batch_normalization_test ::
  "'a batch_norm_layer_scheme \<Rightarrow> tensor \<Rightarrow> error + tensor" where
  "BatchNormLayer_batch_normalization_test l input =
     batch_normalization_test input (gamma l) (beta l) (running_mean l) (running_var l)
       (Axes (axes l)) (epsilon l)"

definition BatchNormLayer_get_output ::
  "library \<Rightarrow> 'a batch_norm_layer_scheme \<Rightarrow> tensor
    \<Rightarrow> error + tensor \<times> 'a batch_norm_layer_scheme" where
  "BatchNormLayer_get_output lib l input =
     (if training_flag l
      then bind (BatchNormLayer_batch_normalization_train l input) (\<lambda>(out, l').
             bind (call lib (activation l) out (call_kwargs l)) (\<lambda>y. Inr (y, l')))
      else bind (BatchNormLayer_batch_normalization_test l input) (\<lambda>out.
             bind (call lib (activation l) out (call_kwargs l)) (\<lambda>y. Inr (y, l))))"

subsection \<open>\<open>BatchRenormLayer\<close>\<close>

definition BatchRenormLayer_init ::
  "(nat option list \<Rightarrow> string \<Rightarrow> error + layer) \<Rightarrow> nat option list \<Rightarrow> string \<Rightarrow> real \<Rightarrow> real
    \<Rightarrow> real \<Rightarrow> real \<Rightarrow> string \<Rightarrow> activation_arg \<Rightarrow> kwargs \<Rightarrow> error + batch_renorm_layer" where
  "BatchRenormLayer_init Layer_init shp name eps rmax dmax factor axes_arg act kw =
     bind (BatchNormLayer_init Layer_init shp name eps factor axes_arg act False kw) (\<lambda>l.
       Inr (batch_norm_layer.extend l (batch_renorm_layer.fields rmax dmax)))"

definition add_scalar :: "tensor \<Rightarrow> real \<Rightarrow> tensor" where
  "add_scalar t c = elemwise (\<lambda>x. x + c) t"

definition mul_scalar :: "real \<Rightarrow> tensor \<Rightarrow> tensor" where
  "mul_scalar c t = elemwise (\<lambda>x. c * x) t"

definition BatchRenormLayer_get_output ::
  "library \<Rightarrow> 'a batch_renorm_layer_scheme \<Rightarrow> tensor
    \<Rightarrow> error + tensor \<times> 'a batch_renorm_layer_scheme" where
  "BatchRenormLayer_get_output lib l input =
     bind (T_mean input (axes l) False) (\<lambda>batch_mean.
     bind (T_var input (axes l) False) (\<lambda>batch_var.
     bind (T_sqrt (add_scalar batch_var (1 / 10 ^ 10))) (\<lambda>batch_std.
     bind (T_sqrt (add_scalar (running_var l) (1 / 10 ^ 10))) (\<lambda>running_std.
     bind (T_true_div batch_std running_std) (\<lambda>ratio.
     let r = T_clip ratio (- r_max l) (r_max l) in
     bind (elemwise2 (-) batch_mean (running_mean l)) (\<lambda>shift.
     bind (T_true_div shift running_std) (\<lambda>shift'.
     let d = T_clip shift' (- d_max l) (d_max l) in
     bind (elemwise2 (*) d batch_std) (\<lambda>d_std.
     bind (T_true_div d_std (add_scalar r (1 / 10 ^ 10))) (\<lambda>correction.
     bind (elemwise2 (-) batch_mean correction) (\<lambda>mean.
     bind (T_true_div batch_std (add_scalar r (1 / 10 ^ 10))) (\<lambda>std.
     bind (batch_normalization_test input (gamma l) (beta l) mean (T_sqr std) (Axes (axes l))
             (epsilon l)) (\<lambda>out.
     if training_flag l then
       (let m = real (prod_list (shape input)) / real (prod_list (shape (gamma l))) in
        if m = 1 then Inl NonFinite
        else
          bind (elemwise2 (\<lambda>rm bm. rm + running_average_factor l * (bm - rm))
                  (running_mean l) batch_mean) (\<lambda>mean_new.
          bind (elemwise2 (\<lambda>rv bs. rv * (1 - running_average_factor l) +
                                    running_average_factor l * (m / (m - 1)) * (bs * bs))
                  (running_var l) batch_std) (\<lambda>var_new.
          bind (call lib (activation l) out []) (\<lambda>y.
            Inr (y, l\<lparr>running_mean := mean_new, running_var := var_new\<rparr>)))))
     else bind (call lib (activation l) out []) (\<lambda>y. Inr (y, l))))))))))))))"

subsection \<open>\<open>DecorrBatchNormLayer\<close>\<close>

text \<open>
  \<open>T.nlinalg.Eigh\<close> is LAPACK's symmetric eigensolver: a parameter \<open>eigh\<close>, which returns the
  eigenvalues as a vector and the eigenvectors as the columns of a matrix. The transform \<open>Z\<close>
  of the flattened input is a function of its own, \<open>DecorrBatchNormLayer_transform\<close>, which
  returns the flattened input, the covariance \<open>Sigma\<close> and \<open>Z\<close>.
\<close>

type_synonym eigensolver = "tensor \<Rightarrow> error + tensor \<times> tensor"

definition DecorrBatchNormLayer_init ::
  "(nat option list \<Rightarrow> string \<Rightarrow> error + layer) \<Rightarrow> nat option list \<Rightarrow> string \<Rightarrow> real \<Rightarrow> real
    \<Rightarrow> activation_arg \<Rightarrow> bool \<Rightarrow> kwargs \<Rightarrow> error + batch_norm_layer" where
  "DecorrBatchNormLayer_init Layer_init shp name eps factor act noscale kw =
     BatchNormLayer_init Layer_init shp name eps factor ''per-activation'' act noscale kw"

definition DecorrBatchNormLayer_transform ::
  "eigensolver \<Rightarrow> tensor \<Rightarrow> error + tensor \<times> tensor \<times> tensor" where
  "DecorrBatchNormLayer_transform eigh input =
     (if length (shape input) \<noteq> 4 then Inl ValueError
      else
        let m = shape input ! 0 in
        bind (dimshuffle input [Some 1, Some 0, Some 2, Some 3]) (\<lambda>X1.
        bind (flatten2 X1) (\<lambda>X.
        bind (T_mean X [1] False) (\<lambda>Muy.
        bind (elemwise2 (-) X Muy) (\<lambda>X_centered.
        bind (transpose_T X_centered) (\<lambda>X_centered_T.
        bind (T_dot X_centered X_centered_T) (\<lambda>G.
        if m = 0 then Inl NonFinite
        else
          let Sigma = mul_scalar (1 / real m) G in
          bind (eigh Sigma) (\<lambda>(W, D).
          bind (T_sqrt W) (\<lambda>W_sqrt.
          bind (T_nlinalg_diag W_sqrt) (\<lambda>L.
          bind (T_dot D L) (\<lambda>DL.
          bind (transpose_T D) (\<lambda>D_T.
          bind (T_dot DL D_T) (\<lambda>Z. Inr (X, Sigma, Z))))))))))))))"

definition DecorrBatchNormLayer_get_output ::
  "library \<Rightarrow> eigensolver \<Rightarrow> 'a batch_norm_layer_scheme \<Rightarrow> tensor
    \<Rightarrow> error + tensor \<times> 'a batch_norm_layer_scheme" where
  "DecorrBatchNormLayer_get_output lib eigh l input =
     bind (DecorrBatchNormLayer_transform eigh input) (\<lambda>(X, Sigma, Z).
     bind (T_dot Z X) (\<lambda>X'.
     bind (transpose_T X') (\<lambda>X_T.
     bind (if training_flag l then BatchNormLayer_batch_normalization_train l X_T
           else bind (BatchNormLayer_batch_normalization_test l X_T) (\<lambda>out. Inr (out, l)))
       (\<lambda>(out, l').
     bind (call lib (activation l) out (call_kwargs l)) (\<lambda>y.
     bind (transpose_T y) (\<lambda>y_T.
     bind (reshape y_T [Some (shape input ! 1), Some (shape input ! 0), Some (shape input ! 2),
                        Some (shape input ! 3)]) (\<lambda>y4.
     bind (dimshuffle y4 [Some 1, Some 0, Some 2, Some 3]) (\<lambda>res. Inr (res, l')))))))))"

subsection \<open>\<open>GroupNormLayer\<close>: the forward pass\<close>

text \<open>
  The three branches of \<open>get_output\<close> are functions of their own, each from the broadcast
  scale \<open>g\<close> and shift \<open>b\<close> and the input to the output that the activation is applied to. In
  the branch for \<open>groups\<close> equal to the channels, \<open>batch_normalization_train\<close> is called
  without an \<open>epsilon\<close> and takes its default \<open>1e-4\<close>.
\<close>

definition scale_shift :: "tensor \<Rightarrow> tensor \<Rightarrow> tensor \<Rightarrow> error + tensor" where
  "scale_shift g b output = bind (elemwise2 (*) g output) (\<lambda>scaled. elemwise2 (+) scaled b)"

definition GroupNormLayer_layer_path ::
  "'a group_norm_layer_scheme \<Rightarrow> tensor \<Rightarrow> tensor \<Rightarrow> tensor \<Rightarrow> error + tensor" where
  "GroupNormLayer_layer_path l g b input =
     bind (dimshuffle input [Some 1, Some 0, Some 2, Some 3]) (\<lambda>input'.
     bind (T_mean input' [0, 2, 3] True) (\<lambda>mean.
     bind (batch_normalization_train input' (T_ones_like mean) (T_zeros_like mean) Spatial
             (epsilon l)) (\<lambda>(output, mu, invstd).
     bind (dimshuffle output [Some 1, Some 0, Some 2, Some 3]) (\<lambda>output'.
       scale_shift g b output'))))"

definition GroupNormLayer_instance_path ::
  "'a group_norm_layer_scheme \<Rightarrow> tensor \<Rightarrow> tensor \<Rightarrow> tensor \<Rightarrow> error + tensor" where
  "GroupNormLayer_instance_path l g b input =
     bind (T_mean input [2, 3] True) (\<lambda>mean.
     bind (batch_normalization_train input (T_ones_like mean) (T_zeros_like mean) (Axes [2, 3])
             (1 / 10000)) (\<lambda>(output, mu, invstd).
       scale_shift g b output))"

definition GroupNormLayer_group_path ::
  "'a group_norm_layer_scheme \<Rightarrow> tensor \<Rightarrow> tensor \<Rightarrow> tensor \<Rightarrow> error + tensor" where
  "GroupNormLayer_group_path l g b input =
     (if length (shape input) = 4 \<and> 0 \<le> groups l then
        let n = shape input ! 0; c = shape input ! 1; h = shape input ! 2; w = shape input ! 3 in
        bind (reshape input [Some n, Some (nat (groups l)), None, Some h, Some w]) (\<lambda>input5.
        bind (T_mean input5 [2, 3, 4] True) (\<lambda>mean.
        bind (T_var input5 [2, 3, 4] True) (\<lambda>var.
        bind (elemwise2 (-) input5 mean) (\<lambda>centered.
        bind (T_sqrt (add_scalar var (epsilon l))) (\<lambda>std.
        bind (T_true_div centered std) (\<lambda>normed.
        bind (reshape normed [Some n, Some c, Some h, Some w]) (\<lambda>input4.
          scale_shift g b input4)))))))
      else Inl ValueError)"

text \<open>\<open>self.groups == self.input_shape[1]\<close>: an unknown channel count equals no number.\<close>

definition groups_are_channels :: "'a group_norm_layer_scheme \<Rightarrow> error + bool" where
  "groups_are_channels l =
     (if length (input_shape l) < 2 then Inl IndexError
      else Inr (map_option int (input_shape l ! 1) = Some (groups l)))"

definition GroupNormLayer_get_output ::
  "library \<Rightarrow> 'a group_norm_layer_scheme \<Rightarrow> tensor \<Rightarrow> error + tensor" where
  "GroupNormLayer_get_output lib l input =
     bind (dimshuffle (gamma l) [None, Some 0, None, None]) (\<lambda>g.
     bind (dimshuffle (beta l) [None, Some 0, None, None]) (\<lambda>b.
     bind (if groups l = 1 then GroupNormLayer_layer_path l g b input
           else bind (groups_are_channels l) (\<lambda>same.
             if same then GroupNormLayer_instance_path l g b input
             else GroupNormLayer_group_path l g b input))
       (\<lambda>output. call lib (activation l) output (call_kwargs l))))"

text \<open>A base constructor that stores its arguments, for the examples.\<close>

definition Layer_init_plain :: "nat option list \<Rightarrow> string \<Rightarrow> error + layer" where
  "Layer_init_plain shp name =
     Inr \<lparr>input_shape = shp, layer_name = name, training_flag = False, params = [],
           trainable = [], regularizable = []\<rparr>"

text \<open>A library that knows no callable, for the examples whose activation is \<open>utils.linear\<close>.\<close>

definition no_library :: library where
  "no_library f x kw = Inl TypeError"

subsection \<open>Example layers and inputs\<close>

text \<open>
  \<open>BN_fresh\<close> is \<open>BatchNormLayer((2, 1, 1, 1), activation='linear')\<close> as constructed, in test
  mode; \<open>BN_training\<close> is the same layer in training mode. \<open>X_pair\<close> is a batch of the two
  samples 0 and 0.015 with one channel: its mean is 0.0075 and its variance \<open>0.0075\<^sup>2\<close>, which
  with the \<open>epsilon\<close> \<open>1e-4\<close> gives the standard deviation 0.0125.
\<close>

definition BN_fresh :: batch_norm_layer where
  "BN_fresh =
     \<lparr>input_shape = [Some 2, Some 1, Some 1, Some 1], layer_name = ''BN'',
      training_flag = False,
      params = [''BN/running_mean'', ''BN/running_var'', ''BN/gamma'', ''BN/beta''],
      trainable = [''BN/beta'', ''BN/gamma''], regularizable = [''BN/gamma''],
      epsilon = 1 / 10000, activation = Linear, kwargs = [],
      gamma_values = np_ones [1], gamma = np_ones [1],
      beta_values = np_zeros [1], beta = np_zeros [1], alpha = None,
      running_average_factor = 1 / 10, no_scale = False, axes = [0, 2, 3],
      self_shape = [1], running_mean = np_zeros [1], running_var = np_zeros [1]\<rparr>"

definition BN_training :: batch_norm_layer where
  "BN_training = BN_fresh\<lparr>training_flag := True\<rparr>"

definition X_pair :: tensor where
  "X_pair = array [2, 1, 1, 1] [0, 3 / 200]"

text \<open>
  \<open>BRN_fresh\<close> is \<open>BatchRenormLayer((1, 1, 1, 1), activation='linear')\<close> as constructed, in
  test mode: running mean 0, running variance 0, \<open>r_max = 1\<close>, \<open>d_max = 0\<close>. \<open>X_one\<close> is a
  batch of one sample of one value, 1.
\<close>

definition BRN_fresh :: batch_renorm_layer where
  "BRN_fresh =
     \<lparr>input_shape = [Some 1, Some 1, Some 1, Some 1], layer_name = ''BRN'',
      training_flag = False,
      params = [''BRN/running_mean'', ''BRN/running_var'', ''BRN/gamma'', ''BRN/beta''],
      trainable = [''BRN/beta'', ''BRN/gamma''], regularizable = [''BRN/gamma''],
      epsilon = 1 / 10000, activation = Linear, kwargs = [],
      gamma_values = np_ones [1], gamma = np_ones [1],
      beta_values = np_zeros [1], beta = np_zeros [1], alpha = None,
      running_average_factor = 1 / 10, no_scale = False, axes = [0, 2, 3],
      self_shape = [1], running_mean = np_zeros [1], running_var = np_zeros [1],
      r_max = 1, d_max = 0\<rparr>"

definition X_one :: tensor where
  "X_one = array [1, 1, 1, 1] [1]"

text \<open>
  \<open>GN_instance\<close> is \<open>GroupNormLayer((1, 2, 1, 2), groups=2, epsilon=1e-3, activation='linear')\<close>
  as constructed: as many groups as channels. \<open>X_rows\<close> holds, for one sample and each of
  two channels, the row \<open>0.0075, -0.0075\<close>: mean 0 and variance \<open>0.0075\<^sup>2\<close>, which gives the
  standard deviation 0.0125 with the \<open>epsilon\<close> \<open>1e-4\<close> and 0.0325 with the \<open>epsilon\<close> \<open>1e-3\<close>.
\<close>

definition GN_instance :: group_norm_layer where
  "GN_instance =
     \<lparr>input_shape = [Some 1, Some 2, Some 1, Some 2], layer_name = ''GN'',
      training_flag = False, params = [''GN/gamma'', ''GN/beta''],
      trainable = [''GN/gamma'', ''GN/beta''], regularizable = [''GN/gamma''],
      epsilon = 1 / 1000, activation = Linear, kwargs = [],
      gamma_values = np_ones [2], gamma = np_ones [2],
      beta_values = np_zeros [2], beta = np_zeros [2], alpha = None, groups = 2\<rparr>"

definition X_rows :: tensor where
  "X_rows = array [1, 2, 1, 2] [3 / 400, - (3 / 400), 3 / 400, - (3 / 400)]"

text \<open>
  \<open>DBN_layer\<close> is \<open>DecorrBatchNormLayer((1, 2, 2, 1), activation='linear')\<close> as constructed, in
  training mode. \<open>X_channels\<close> is one sample with the channels \<open>4, 0\<close> and \<open>2, -2\<close>; the
  matrix \<open>Sigma\<close> that the layer computes from it is \<open>Sigma_4\<close>, four times the identity, whose
  eigenvalues are 4 and 4.
\<close>

definition DBN_layer :: batch_norm_layer where
  "DBN_layer =
     \<lparr>input_shape = [Some 1, Some 2, Some 2, Some 1], layer_name = ''DBN'',
      training_flag = True,
      params = [''DBN/running_mean'', ''DBN/running_var'', ''DBN/gamma'', ''DBN/beta''],
      trainable = [''DBN/beta'', ''DBN/gamma''], regularizable = [''DBN/gamma''],
      epsilon = 1 / 10000, activation = Linear, kwargs = [],
      gamma_values = np_ones [2, 2, 1], gamma = np_ones [2, 2, 1],
      beta_values = np_zeros [2, 2, 1], beta = np_zeros [2, 2, 1], alpha = None,
      running_average_factor = 1 / 10, no_scale = False, axes = [0],
      self_shape = [2, 2, 1], running_mean = np_zeros [2, 2, 1],
      running_var = np_zeros [2, 2, 1]\<rparr>"

definition X_channels :: tensor where
  "X_channels = array [1, 2, 2, 1] [4, 0, 2, - 2]"

definition Sigma_4 :: tensor where
  "Sigma_4 = array [2, 2] [4, 0, 0, 4]"

text \<open>
  An eigensolver that returns, for every matrix, the eigenvalues 4 and 4 and the identity as
  eigenvectors: a decomposition of \<open>Sigma_4\<close>.
\<close>

definition eigh_Sigma_4 :: eigensolver where
  "eigh_Sigma_4 S = Inr (array [2] [4, 4], array [2, 2] [1, 0, 0, 1])"

section \<open>Verified properties\<close>

subsection \<open>The progress wrapper\<close>

lemma yielded_append: "yielded (xs @ ys) = yielded xs @ yielded ys"
  by (induction xs rule: yielded.induct) auto

lemma progress_loop_yields:
  "tot \<noteq> 0 \<Longrightarrow> progress_loop desc tot min_delay clock t_start t_last n xs = (evs, err)
     \<Longrightarrow> err = None \<and> yielded evs = xs"
  by (induction xs arbitrary: t_last n evs err)
     (auto simp: Let_def yielded_append split: if_splits prod.splits)

lemma total_or_len_cases:
  "has_len its \<or> (\<exists>t. n_total = Some t \<and> t \<noteq> 0) \<Longrightarrow>
     \<exists>tot. total_or_len n_total its = Inr tot \<and> (tot \<noteq> 0 \<or> elems its = [])"
  by (auto simp: total_or_len_def len_def split: option.splits)

text \<open>
  When the wrapped iterable has a length, or a total other than 0 is passed, the generator
  raises nothing and yields exactly the items of the iterable, in their order and unchanged,
  whatever the description, the minimum delay and the readings of the clock are; the
  percentage is never computed with a total of 0.
\<close>

lemma progress_passes_items:
  "has_len its \<or> (\<exists>t. n_total = Some t \<and> t \<noteq> 0) \<Longrightarrow>
     snd (progress its desc n_total min_delay clock) = None \<and>
     yielded (fst (progress its desc n_total min_delay clock)) = elems its"
proof -
  assume "has_len its \<or> (\<exists>t. n_total = Some t \<and> t \<noteq> 0)"
  then obtain tot where tot: "total_or_len n_total its = Inr tot"
    and nz: "tot \<noteq> 0 \<or> elems its = []"
    using total_or_len_cases by blast
  obtain evs err where loop:
    "progress_loop desc tot min_delay clock (clock 0) 0 0 (elems its) = (evs, err)"
    by (cases "progress_loop desc tot min_delay clock (clock 0) 0 0 (elems its)")
  have "err = None \<and> yielded evs = elems its"
  proof (cases "tot = 0")
    case False
    then show ?thesis using loop by (rule progress_loop_yields)
  next
    case True
    with nz have "elems its = []" by simp
    with loop show ?thesis by simp
  qed
  then show ?thesis
    by (simp add: progress_def tot loop Let_def yielded_append split: prod.splits)
qed

text \<open>
  Claim C9, on the code. A generator of the items 3, 1, 2 is wrapped with the total 0, as
  \<open>get_batches\<close> does when there are fewer samples than one batch holds
  (\<open>num_batches = shape // batch_size\<close>): \<open>total or len(items)\<close> takes the 0 for a missing
  total and calls \<open>len\<close> on the generator, which raises \<open>TypeError\<close> before anything is
  yielded. With the total 3 the same generator passes its items through, and so does a list
  with the total 0.
\<close>

theorem progress_total_zero_raises:
  "progress \<lparr>elems = [3, 1, 2 :: nat], has_len = False\<rparr> ''Batch '' (Some 0) (1 / 10) real
     = ([], Some TypeError) \<and>
   snd (progress \<lparr>elems = [3, 1, 2 :: nat], has_len = False\<rparr> ''Batch '' (Some 3) (1 / 10) real)
     = None \<and>
   yielded (fst (progress \<lparr>elems = [3, 1, 2 :: nat], has_len = False\<rparr> ''Batch '' (Some 3)
                   (1 / 10) real))
     = [3, 1, 2] \<and>
   snd (progress \<lparr>elems = [3, 1, 2 :: nat], has_len = True\<rparr> ''Batch '' (Some 0) (1 / 10) real)
     = None \<and>
   yielded (fst (progress \<lparr>elems = [3, 1, 2 :: nat], has_len = True\<rparr> ''Batch '' (Some 0)
                   (1 / 10) real))
     = [3, 1, 2]"
proof -
  have raises:
    "progress \<lparr>elems = [3, 1, 2 :: nat], has_len = False\<rparr> ''Batch '' (Some 0) (1 / 10) real
       = ([], Some TypeError)"
    by (simp add: progress_def total_or_len_def len_def)
  have passes:
    "snd (progress \<lparr>elems = [3, 1, 2 :: nat], has_len = False\<rparr> ''Batch '' (Some 3) (1 / 10) real)
       = None \<and>
     yielded (fst (progress \<lparr>elems = [3, 1, 2 :: nat], has_len = False\<rparr> ''Batch '' (Some 3)
                     (1 / 10) real))
       = [3, 1, 2]"
    using progress_passes_items
      [of "\<lparr>elems = [3, 1, 2 :: nat], has_len = False\<rparr>" "Some 3" "''Batch ''" "1 / 10" real]
    by simp
  have sized:
    "snd (progress \<lparr>elems = [3, 1, 2 :: nat], has_len = True\<rparr> ''Batch '' (Some 0) (1 / 10) real)
       = None \<and>
     yielded (fst (progress \<lparr>elems = [3, 1, 2 :: nat], has_len = True\<rparr> ''Batch '' (Some 0)
                     (1 / 10) real))
       = [3, 1, 2]"
    using progress_passes_items
      [of "\<lparr>elems = [3, 1, 2 :: nat], has_len = True\<rparr>" "Some 0" "''Batch ''" "1 / 10" real]
    by simp
  from raises passes sized show ?thesis
    by blast
qed

subsection \<open>The background pipeline\<close>

lemma items_of_append: "items_of (q @ r) = items_of q @ items_of r"
  by (induction q rule: items_of.induct) auto

lemma items_of_map_Item: "items_of (map Item xs) = xs"
  by (induction xs) auto

lemma sentinel_first:
  "Sentinel # q = map Item ys @ [Sentinel] \<longleftrightarrow> q = [] \<and> ys = []"
  by (cases ys) auto

lemma pipeline_inv_initial: "pipeline_inv C src (initial src)"
  by (simp add: pipeline_inv_def initial_def)

lemma pipeline_inv_step:
  "pipeline_inv C src s \<Longrightarrow> step C t s = Some s' \<Longrightarrow> pipeline_inv C src s'"
  by (cases t)
     (auto simp: pipeline_inv_def full_def items_of_append items_of_map_Item sentinel_first
       split: producer.splits consumer.splits list.splits entry.splits if_splits)

lemma pipeline_inv_run: "pipeline_inv C src s \<Longrightarrow> pipeline_inv C src (run C sched s)"
  by (induction sched arbitrary: s) (auto split: option.splits intro: pipeline_inv_step)

lemma steps_left_step:
  "pipeline_inv C src s \<Longrightarrow> step C t s = Some s' \<Longrightarrow> steps_left s = Suc (steps_left s')"
  by (cases t)
     (auto simp: pipeline_inv_def steps_left_def full_def sentinel_first
       split: producer.splits consumer.splits list.splits entry.splits if_splits)

lemma steps_left_zero:
  "pipeline_inv C src s \<Longrightarrow> steps_left s = 0 \<longleftrightarrow> consumer s = Stopped"
  by (auto simp: pipeline_inv_def steps_left_def split: producer.splits consumer.splits)

lemma no_deadlock:
  "pipeline_inv C src s \<Longrightarrow> consumer s \<noteq> Stopped \<Longrightarrow>
     step C Producer s \<noteq> None \<or> step C Consumer s \<noteq> None"
  by (auto simp: pipeline_inv_def full_def sentinel_first
      split: producer.splits consumer.splits list.splits entry.splits if_splits)

lemma stopped_observed_all:
  "pipeline_inv C src s \<Longrightarrow> consumer s = Stopped \<Longrightarrow> observed s = src"
  by (auto simp: pipeline_inv_def split: producer.splits)

text \<open>
  Claim C7, as the code has it: for a capacity \<open>C\<close> with \<open>1 \<le> C < N\<close>. In every state \<open>s\<close>
  that the two threads reach under any schedule: the items observed, those in the queue, the
  one the producer holds and those not yet produced are together the source, in its order
  (nothing lost, doubled or reordered); the queue holds at most \<open>C\<close> entries; a consumer that
  has stopped has observed exactly the \<open>N\<close> items, the sentinel not among them; until then
  one of the threads can step (no deadlock); every step lowers \<open>steps_left\<close> by one, which
  starts at \<open>3 * N + 3\<close> and is 0 exactly when the consumer has stopped, so every run ends
  there.
\<close>

theorem generate_in_background_fifo:
  assumes "0 < C" and "C < int (length src)"
  shows "let s = run C sched (initial src) in
           observed s @ items_of (queue s) @ in_hand (producer s) @ source s = src \<and>
           int (length (queue s)) \<le> C \<and>
           (consumer s = Stopped \<longrightarrow> observed s = src) \<and>
           (consumer s \<noteq> Stopped \<longrightarrow>
              step C Producer s \<noteq> None \<or> step C Consumer s \<noteq> None) \<and>
           (\<forall>t s'. step C t s = Some s' \<longrightarrow> steps_left s = Suc (steps_left s')) \<and>
           (steps_left s = 0 \<longleftrightarrow> consumer s = Stopped) \<and>
           steps_left (initial src) = 3 * length src + 3"
proof -
  define s where "s = run C sched (initial src)"
  have inv: "pipeline_inv C src s"
    unfolding s_def by (rule pipeline_inv_run [OF pipeline_inv_initial])
  have order: "observed s @ items_of (queue s) @ in_hand (producer s) @ source s = src"
    using inv by (simp add: pipeline_inv_def)
  have bound: "int (length (queue s)) \<le> C"
    using inv assms(1) by (simp add: pipeline_inv_def)
  have all: "consumer s = Stopped \<longrightarrow> observed s = src"
    using inv by (blast intro: stopped_observed_all)
  have live: "consumer s \<noteq> Stopped \<longrightarrow>
      step C Producer s \<noteq> None \<or> step C Consumer s \<noteq> None"
    using no_deadlock [OF inv] by blast
  have decr: "\<forall>t s'. step C t s = Some s' \<longrightarrow> steps_left s = Suc (steps_left s')"
    using steps_left_step [OF inv] by blast
  have fin: "steps_left s = 0 \<longleftrightarrow> consumer s = Stopped"
    by (rule steps_left_zero [OF inv])
  have start: "steps_left (initial src) = 3 * length src + 3"
    by (simp add: steps_left_def initial_def)
  from order bound all live decr fin start show ?thesis
    unfolding Let_def s_def [symmetric] by blast
qed

theorem generate_in_background_fifo_witness:
  "(0::int) < 1 \<and> 1 < int (length [7, 8 :: nat]) \<and>
   consumer (run 1 [Producer, Producer, Consumer, Producer, Producer, Producer, Consumer,
                    Producer, Producer, Consumer] (initial [7, 8 :: nat])) = Stopped \<and>
   observed (run 1 [Producer, Producer, Consumer, Producer, Producer, Producer, Consumer,
                    Producer, Producer, Consumer] (initial [7, 8 :: nat])) = [7, 8]"
  using generate_in_background_fifo
    [of 1 "[7, 8 :: nat]" "[Producer, Producer, Consumer, Producer, Producer, Producer, Consumer,
                    Producer, Producer, Consumer]"]
  by (simp add: initial_def full_def)

text \<open>
  Claim C7 as stated fails at the capacity 0, which \<open>queue.Queue\<close> takes for "no bound": with
  one minibatch in the source, the producer has put it into the queue after two steps.
\<close>

theorem generate_in_background_unbounded_counterexample:
  "(0::int) < int (length [7 :: nat]) \<and>
   \<not> int (length (queue (run 0 [Producer, Producer] (initial [7 :: nat])))) \<le> 0"
  by (simp add: initial_def full_def)

subsection \<open>Construction of a group normalization layer\<close>

lemma groups_divide_examples:
  "groups_divide 6 3 = Inr True" "groups_divide 6 4 = Inr False"
  "groups_divide 6 0 = Inl ZeroDivisionError"
  by code_simp+

lemma channels_six: "channels [Some 4, Some 6, Some 8, Some 8] = Inr 6"
  by code_simp

lemma resolve_examples:
  "resolve (Name ''prelu'') = Inl KeyError" "resolve (Name ''relu'') = Inr T_nnet_relu"
  by code_simp+

text \<open>
  Claim C6, on the code. For the input shape \<open>(4, 6, 8, 8)\<close>, with 6 channels: 3 groups
  divide the channels, and with the activation \<open>'relu'\<close> the constructor returns a layer with
  these groups and one scale and one shift for each channel; with the activation \<open>'prelu'\<close>,
  which the constructor treats specially further down, it raises \<open>KeyError\<close> at
  \<open>utils.function[activation]\<close>, for \<open>utils.function\<close> has no entry \<open>'prelu'\<close>. With 4
  groups, which do not divide the channels, it raises \<open>AssertionError\<close>, and with 0 groups
  \<open>ZeroDivisionError\<close>, before the base constructor is called.
\<close>

theorem GroupNormLayer_init_prelu_raises:
  "(3 :: int) dvd 6 \<and>
   GroupNormLayer_init Layer_init_plain [Some 4, Some 6, Some 8, Some 8] ''GN'' 3 (1 / 10000)
     (Name ''prelu'') [] = Inl KeyError \<and>
   (\<exists>l. GroupNormLayer_init Layer_init_plain [Some 4, Some 6, Some 8, Some 8] ''GN'' 3
          (1 / 10000) (Name ''relu'') [] = Inr l \<and>
        groups l = 3 \<and> input_shape l = [Some 4, Some 6, Some 8, Some 8] \<and>
        gamma l = np_ones [6] \<and> beta l = np_zeros [6]) \<and>
   GroupNormLayer_init Layer_init [Some 4, Some 6, Some 8, Some 8] name 4 eps act kw
     = Inl AssertionError \<and>
   GroupNormLayer_init Layer_init [Some 4, Some 6, Some 8, Some 8] name 0 eps act kw
     = Inl ZeroDivisionError"
  by (simp add: GroupNormLayer_init_def bind_def channels_six groups_divide_examples
      resolve_examples Layer_init_plain_def Let_def)

subsection \<open>Reset\<close>

lemma subscript_prelu: "subscript utils_function ''prelu'' = Inl KeyError"
  by (simp add: subscript_def utils_function_def)

text \<open>
  Claim C8, on the code. \<open>reset\<close> of every layer of the batch normalization family sets the
  scale to \<open>gamma_values\<close> and the shift to \<open>beta_values\<close> (the ones and zeros of the
  construction), leaves the running statistics and everything else as they are, and then
  raises \<open>KeyError\<close>: \<open>utils.function\<close> has no entry \<open>'prelu'\<close>. The coefficient of a
  parametric activation is never restored.
\<close>

theorem BatchNormLayer_reset_raises:
  "BatchNormLayer_reset l =
     (Some KeyError, l\<lparr>gamma := gamma_values l, beta := beta_values l\<rparr>)"
  by (simp add: BatchNormLayer_reset_def subscript_prelu Let_def)

subsection \<open>Batch normalization\<close>

lemma bind_Inr: "bind (Inr x) f = f x"
  by (simp add: bind_def)

lemma call_Linear: "call lib Linear x [] = Inr x"
  by (simp add: call_def)

lemma length_indices: "length (indices shp) = prod_list shp"
  by (induction shp) (simp_all add: length_concat o_def sum_list_triv)

lemma prod_list_kept_squashed_aux:
  "prod_list (map (\<lambda>(i, d). if i \<in> A then 1 else d) (enumerate n shp))
     = prod_list (map snd (filter (\<lambda>(i, x). i \<notin> A) (enumerate n shp)))"
  by (induction shp arbitrary: n) auto

lemma prod_list_squashed: "prod_list (squashed as shp) = prod_list (kept as shp)"
  by (simp add: squashed_def kept_def prod_list_kept_squashed_aux)

lemma param_ok_size: "param_ok x as p \<Longrightarrow> prod_list (shape p) = prod_list (kept as (shape x))"
  by (auto simp: param_ok_def prod_list_squashed)

lemma length_batch_means: "length (batch_means x as) = prod_list (kept as (shape x))"
  by (simp add: batch_means_def length_indices)

lemma length_batch_vars: "length (batch_vars x as) = prod_list (kept as (shape x))"
  by (simp add: batch_vars_def length_indices)

lemma well_formed_update:
  assumes "well_formed p" and "param_ok x as p" and "length vs = prod_list (kept as (shape x))"
  shows "well_formed (p\<lparr>data := map f (zip (data p) vs)\<rparr>) \<and>
         length (data (p\<lparr>data := map f (zip (data p) vs)\<rparr>)) = length vs"
  using assms param_ok_size [OF assms(2)] by (simp add: well_formed_def)

lemma zip_update_diff:
  fixes f :: real
  shows "map (\<lambda>(a, b). a - b) (zip (map (\<lambda>(r, mu). r * (1 - f) + mu * f) (zip rs ms)) rs)
     = map (\<lambda>(r, mu). f * (mu - r)) (zip rs ms)"
proof (induction rs arbitrary: ms)
  case Nil
  then show ?case by simp
next
  case (Cons r rs)
  show ?case
  proof (cases ms)
    case Nil
    then show ?thesis by simp
  next
    case (Cons mu ms')
    have "r * (1 - f) + mu * f - r = f * (mu - r)"
      by (simp add: algebra_simps)
    with Cons.IH [of ms'] Cons show ?thesis by simp
  qed
qed

lemma train_running_Inr:
  "batch_normalization_train_running x g b ax eps f rm rv = Inr (out, mean, invstd, rm', rv') \<Longrightarrow>
     batch_normalization_train x g b ax eps = Inr (out, mean, invstd) \<and>
     rm' = rm\<lparr>data := map (\<lambda>(r, mu). r * (1 - f) + mu * f)
                  (zip (data rm) (batch_means x (normalization_axes ax (length (shape x)))))\<rparr> \<and>
     rv' = rv\<lparr>data := map (\<lambda>(r, v). r * (1 - f) +
                   (real (prod_list (shape x)) / real (prod_list (shape g))) /
                   (real (prod_list (shape x)) / real (prod_list (shape g)) - 1) * v * f)
                  (zip (data rv) (batch_vars x (normalization_axes ax (length (shape x)))))\<rparr>"
  by (auto simp: batch_normalization_train_running_def bind_def Let_def
      split: if_splits sum.splits prod.splits)

lemma train_running_args:
  "batch_normalization_train_running x g b ax eps f rm rv = Inr res \<Longrightarrow>
     bn_args_ok x (normalization_axes ax (length (shape x))) [g, b, rm, rv] eps"
  by (auto simp: batch_normalization_train_running_def Let_def split: if_splits)

lemma bn_args_ok_params:
  "bn_args_ok x as [g, b, rm, rv] eps \<Longrightarrow>
     bn_args_ok x as [g, b] eps \<and> param_ok x as rm \<and> param_ok x as rv"
  by (simp add: bn_args_ok_def)

lemma train_returns:
  "bn_args_ok x (normalization_axes ax (length (shape x))) [g, b] eps \<Longrightarrow>
   prod_list (shape x) \<noteq> 0 \<Longrightarrow>
     \<exists>out mean invstd. batch_normalization_train x g b ax eps = Inr (out, mean, invstd)"
  by (simp add: batch_normalization_train_def Let_def)

lemma train_running_returns:
  "bn_args_ok x (normalization_axes ax (length (shape x))) [g, b, rm, rv] eps \<Longrightarrow>
   prod_list (shape x) \<noteq> 0 \<Longrightarrow>
   real (prod_list (shape x)) / real (prod_list (shape g)) \<noteq> 1 \<Longrightarrow>
     \<exists>res. batch_normalization_train_running x g b ax eps f rm rv = Inr res"
  using train_returns [of x ax g b eps] bn_args_ok_params [of x _ g b rm rv eps]
  by (auto simp: batch_normalization_train_running_def Let_def bind_def)

lemma get_output_training_returns:
  assumes "training_flag l"
    and "bn_args_ok x (axes l) [gamma l, beta l, running_mean l, running_var l] (epsilon l)"
    and "prod_list (shape x) \<noteq> 0"
    and "real (prod_list (shape x)) / real (prod_list (shape (gamma l))) \<noteq> 1"
    and "\<forall>out. \<exists>y. call lib (activation l) out (call_kwargs l) = Inr y"
  shows "\<exists>y l'. BatchNormLayer_get_output lib l x = Inr (y, l')"
proof -
  from assms(2-4) obtain out mean invstd rm' rv' where
    "batch_normalization_train_running x (gamma l) (beta l) (Axes (axes l)) (epsilon l)
       (running_average_factor l) (running_mean l) (running_var l)
     = Inr (out, mean, invstd, rm', rv')"
    using train_running_returns [of x "Axes (axes l)" "gamma l" "beta l" "running_mean l"
        "running_var l" "epsilon l" "running_average_factor l"]
    by (auto simp: normalization_axes_def)
  moreover from assms(5) obtain y where "call lib (activation l) out (call_kwargs l) = Inr y"
    by blast
  ultimately show ?thesis
    using assms(1)
    by (simp add: BatchNormLayer_get_output_def BatchNormLayer_batch_normalization_train_def
        bind_def)
qed

lemma get_output_test_returns:
  assumes "\<not> training_flag l"
    and "bn_args_ok x (axes l) [gamma l, beta l, running_mean l, running_var l] (epsilon l)"
    and "\<forall>v \<in> set (data (running_var l)). 0 < v + epsilon l"
    and "\<forall>out. \<exists>y. call lib (activation l) out (call_kwargs l) = Inr y"
  shows "\<exists>y. BatchNormLayer_get_output lib l x = Inr (y, l)"
proof -
  from assms(2,3) obtain out where
    "BatchNormLayer_batch_normalization_test l x = Inr out"
    by (auto simp: BatchNormLayer_batch_normalization_test_def batch_normalization_test_def
        normalization_axes_def Let_def not_le)
  moreover from assms(4) obtain y where "call lib (activation l) out (call_kwargs l) = Inr y"
    by blast
  ultimately show ?thesis
    using assms(1) by (simp add: BatchNormLayer_get_output_def bind_def)
qed

lemma sqrt_1_6400: "sqrt (1 / 6400) = 1 / 80"
  by (rule real_sqrt_unique) (simp_all add: power2_eq_square)

lemma sqrt_1_10000: "sqrt (1 / 10000) = 1 / 100"
  by (rule real_sqrt_unique) (simp_all add: power2_eq_square)

lemma BN_fresh_init:
  "BatchNormLayer_init Layer_init_plain [Some 2, Some 1, Some 1, Some 1] ''BN'' (1 / 10000)
     (1 / 10) ''spatial'' (Name ''linear'') False [] = Inr BN_fresh"
  by code_simp

lemma X_pair_args:
  "bn_args_ok X_pair [0, 2, 3] [np_ones [1], np_zeros [1], np_zeros [1], np_zeros [1]] (1 / 10000)"
  "bn_args_ok X_pair [0, 2, 3] [np_ones [1], np_zeros [1]] (1 / 10000)"
  by code_simp+

lemma X_pair_stats:
  "batch_means X_pair [0, 2, 3] = [3 / 400]"
  "batch_vars X_pair [0, 2, 3] = [9 / 160000]"
  by code_simp+

lemma X_pair_fields:
  "shape X_pair = [2, 1, 1, 1]" "data (np_ones [1]) = [1]" "data (np_zeros [1]) = [0]"
  "shape (np_ones [1]) = [1]"
  by code_simp+

lemma X_pair_normalize_train:
  "normalize X_pair [0, 2, 3] (np_ones [1]\<lparr>data := [3 / 400]\<rparr>) (np_ones [1]\<lparr>data := [80]\<rparr>)
     (np_zeros [1]) = array [2, 1, 1, 1] [- (3 / 5), 3 / 5]"
  by code_simp

lemma X_pair_normalize_test:
  "normalize X_pair [0, 2, 3] (np_zeros [1]) (np_ones [1]\<lparr>data := [100]\<rparr>)
     (np_zeros [1]) = array [2, 1, 1, 1] [0, 3 / 2]"
  by code_simp

lemma BN_training_forward:
  "BatchNormLayer_get_output no_library BN_training X_pair =
     Inr (array [2, 1, 1, 1] [- (3 / 5), 3 / 5],
          BN_training\<lparr>running_mean := array [1] [3 / 4000],
                       running_var := array [1] [9 / 800000]\<rparr>)"
  apply (simp add: BatchNormLayer_get_output_def BatchNormLayer_batch_normalization_train_def
      batch_normalization_train_running_def batch_normalization_train_def bind_def Let_def
      normalization_axes_def BN_training_def BN_fresh_def X_pair_args X_pair_stats X_pair_fields
      X_pair_normalize_train sqrt_1_6400 call_def call_kwargs_def del: One_nat_def)
  apply code_simp
  done

lemma BN_fresh_forward:
  "BatchNormLayer_get_output no_library BN_fresh X_pair =
     Inr (array [2, 1, 1, 1] [0, 3 / 2], BN_fresh)"
  by (simp add: BatchNormLayer_get_output_def BatchNormLayer_batch_normalization_test_def
      batch_normalization_test_def bind_def Let_def
      normalization_axes_def BN_fresh_def X_pair_args X_pair_stats X_pair_fields
      X_pair_normalize_test sqrt_1_10000 call_def call_kwargs_def del: One_nat_def)

lemma BN_fresh_conditions:
  "\<not> training_flag BN_fresh"
  "bn_args_ok X_pair (axes BN_fresh)
     [gamma BN_fresh, beta BN_fresh, running_mean BN_fresh, running_var BN_fresh]
     (epsilon BN_fresh)"
  "\<forall>v \<in> set (data (running_var BN_fresh)). 0 < v + epsilon BN_fresh"
  "\<forall>out. \<exists>y. call no_library (activation BN_fresh) out (call_kwargs BN_fresh) = Inr y"
  by (simp_all add: BN_fresh_def X_pair_args X_pair_fields call_Linear call_kwargs_def
      del: One_nat_def)

lemma BN_training_conditions:
  "training_flag BN_training"
  "bn_args_ok X_pair (axes BN_training)
     [gamma BN_training, beta BN_training, running_mean BN_training, running_var BN_training]
     (epsilon BN_training)"
  "prod_list (shape X_pair) \<noteq> 0"
  "real (prod_list (shape X_pair)) / real (prod_list (shape (gamma BN_training))) = 2"
  "\<forall>out. \<exists>y. call no_library (activation BN_training) out (call_kwargs BN_training) = Inr y"
  by (simp_all add: BN_training_def BN_fresh_def X_pair_args X_pair_fields call_Linear
      call_kwargs_def del: One_nat_def)

lemma BN_training_well_formed:
  "well_formed (running_mean BN_training)" "well_formed (running_var BN_training)"
  by code_simp+

text \<open>
  Claim C2. In test mode a forward pass returns when the input and the parameters fit
  together, the running variances plus \<open>epsilon\<close> are positive and the activation returns; a
  forward pass that returns leaves the layer as it was, running statistics and all, so the
  same call on the layer it leaves returns the same output. (A pass that raises has changed
  nothing either: the model of a raising pass has no layer.)
\<close>

theorem BatchNormLayer_test_mode_frame:
  assumes "\<not> training_flag l"
  shows "(bn_args_ok x (axes l) [gamma l, beta l, running_mean l, running_var l] (epsilon l) \<and>
          (\<forall>v \<in> set (data (running_var l)). 0 < v + epsilon l) \<and>
          (\<forall>out. \<exists>y. call lib (activation l) out (call_kwargs l) = Inr y)
            \<longrightarrow> (\<exists>y. BatchNormLayer_get_output lib l x = Inr (y, l))) \<and>
         (\<forall>y l'. BatchNormLayer_get_output lib l x = Inr (y, l') \<longrightarrow>
            l' = l \<and> running_mean l' = running_mean l \<and> running_var l' = running_var l \<and>
            BatchNormLayer_get_output lib l' x = Inr (y, l'))"
proof -
  have frame: "\<forall>y l'. BatchNormLayer_get_output lib l x = Inr (y, l') \<longrightarrow>
      l' = l \<and> running_mean l' = running_mean l \<and> running_var l' = running_var l \<and>
      BatchNormLayer_get_output lib l' x = Inr (y, l')"
    using assms by (auto simp: BatchNormLayer_get_output_def bind_def split: sum.splits)
  with get_output_test_returns [OF assms, of x lib] show ?thesis
    by blast
qed

theorem BatchNormLayer_test_mode_frame_witness:
  "\<not> training_flag BN_fresh \<and>
   bn_args_ok X_pair (axes BN_fresh)
     [gamma BN_fresh, beta BN_fresh, running_mean BN_fresh, running_var BN_fresh]
     (epsilon BN_fresh) \<and>
   (\<exists>y. BatchNormLayer_get_output no_library BN_fresh X_pair = Inr (y, BN_fresh)) \<and>
   BatchNormLayer_get_output no_library BN_fresh X_pair =
     Inr (array [2, 1, 1, 1] [0, 3 / 2], BN_fresh)"
proof -
  note frame = BatchNormLayer_test_mode_frame [OF BN_fresh_conditions(1), of X_pair no_library]
  from frame BN_fresh_conditions(2-4)
  have "\<exists>y. BatchNormLayer_get_output no_library BN_fresh X_pair = Inr (y, BN_fresh)"
    by blast
  with BN_fresh_conditions(1,2) BN_fresh_forward show ?thesis
    by blast
qed

text \<open>
  Claim C1, as the code has it. In training mode a forward pass returns when the input and
  the parameters fit together, each statistic is taken over more than one element and the
  activation returns. A forward pass that returns the output \<open>y\<close> and the layer \<open>l'\<close> has changed
  the two running statistics and nothing else. With the factor \<open>f\<close>, position by position:
  the new running mean is \<open>running * (1 - f) + batch_mean * f\<close>, so it has moved by
  \<open>f * (batch_mean - running)\<close>; the new running variance is
  \<open>running * (1 - f) + (m / (m - 1)) * batch_var * f\<close>, so it has moved by
  \<open>f * ((m / (m - 1)) * batch_var - running)\<close>, towards the unbiased variance of the batch,
  where \<open>m\<close> is the number of elements that one statistic is taken over; running statistics
  that hold one number for each position of their shape are updated at every position. The
  output is the activation of what \<open>batch_normalization_train\<close> computes from the input, the
  scale, the shift and \<open>epsilon\<close> alone: of the batch mean and the (biased) batch variance,
  not of the running statistics, old or new.
\<close>

theorem BatchNormLayer_training_update:
  assumes "training_flag l"
  shows "(bn_args_ok x (axes l) [gamma l, beta l, running_mean l, running_var l] (epsilon l) \<and>
          prod_list (shape x) \<noteq> 0 \<and>
          real (prod_list (shape x)) / real (prod_list (shape (gamma l))) \<noteq> 1 \<and>
          (\<forall>out. \<exists>y. call lib (activation l) out (call_kwargs l) = Inr y)
            \<longrightarrow> (\<exists>y l'. BatchNormLayer_get_output lib l x = Inr (y, l'))) \<and>
         (\<forall>y l'. BatchNormLayer_get_output lib l x = Inr (y, l') \<longrightarrow>
           (let f = running_average_factor l;
                m = real (prod_list (shape x)) / real (prod_list (shape (gamma l)));
                mus = batch_means x (axes l);
                vs = batch_vars x (axes l)
            in l' = l\<lparr>running_mean := (running_mean l)
                         \<lparr>data := map (\<lambda>(r, mu). r * (1 - f) + mu * f)
                                    (zip (data (running_mean l)) mus)\<rparr>,
                       running_var := (running_var l)
                         \<lparr>data := map (\<lambda>(r, v). r * (1 - f) + m / (m - 1) * v * f)
                                    (zip (data (running_var l)) vs)\<rparr>\<rparr> \<and>
               map (\<lambda>(new, old). new - old)
                   (zip (data (running_mean l')) (data (running_mean l)))
                 = map (\<lambda>(r, mu). f * (mu - r)) (zip (data (running_mean l)) mus) \<and>
               map (\<lambda>(new, old). new - old)
                   (zip (data (running_var l')) (data (running_var l)))
                 = map (\<lambda>(r, v). f * (m / (m - 1) * v - r)) (zip (data (running_var l)) vs) \<and>
               (well_formed (running_mean l) \<longrightarrow>
                  well_formed (running_mean l') \<and>
                  length (data (running_mean l')) = length mus) \<and>
               (well_formed (running_var l) \<longrightarrow>
                  well_formed (running_var l') \<and>
                  length (data (running_var l')) = length vs) \<and>
               (\<exists>out mean invstd.
                  batch_normalization_train x (gamma l) (beta l) (Axes (axes l)) (epsilon l)
                    = Inr (out, mean, invstd) \<and>
                  call lib (activation l) out (call_kwargs l) = Inr y)))"
proof -
  define f where "f = running_average_factor l"
  define m where "m = real (prod_list (shape x)) / real (prod_list (shape (gamma l)))"
  define mus where "mus = batch_means x (axes l)"
  define vs where "vs = batch_vars x (axes l)"
  have update: "l' = l\<lparr>running_mean := (running_mean l)
                      \<lparr>data := map (\<lambda>(r, mu). r * (1 - f) + mu * f)
                                 (zip (data (running_mean l)) mus)\<rparr>,
                    running_var := (running_var l)
                      \<lparr>data := map (\<lambda>(r, v). r * (1 - f) + m / (m - 1) * v * f)
                                 (zip (data (running_var l)) vs)\<rparr>\<rparr> \<and>
            map (\<lambda>(new, old). new - old) (zip (data (running_mean l')) (data (running_mean l)))
              = map (\<lambda>(r, mu). f * (mu - r)) (zip (data (running_mean l)) mus) \<and>
            map (\<lambda>(new, old). new - old) (zip (data (running_var l')) (data (running_var l)))
              = map (\<lambda>(r, v). f * (m / (m - 1) * v - r)) (zip (data (running_var l)) vs) \<and>
            (well_formed (running_mean l) \<longrightarrow>
               well_formed (running_mean l') \<and> length (data (running_mean l')) = length mus) \<and>
            (well_formed (running_var l) \<longrightarrow>
               well_formed (running_var l') \<and> length (data (running_var l')) = length vs) \<and>
            (\<exists>out mean invstd.
               batch_normalization_train x (gamma l) (beta l) (Axes (axes l)) (epsilon l)
                 = Inr (out, mean, invstd) \<and>
               call lib (activation l) out (call_kwargs l) = Inr y)"
    if ret: "BatchNormLayer_get_output lib l x = Inr (y, l')" for y l'
  proof -
    from assms ret obtain out mean invstd rm' rv' where
      run: "batch_normalization_train_running x (gamma l) (beta l) (Axes (axes l)) (epsilon l)
              (running_average_factor l) (running_mean l) (running_var l)
            = Inr (out, mean, invstd, rm', rv')"
      and act: "call lib (activation l) out (call_kwargs l) = Inr y"
      and l': "l' = l\<lparr>running_mean := rm', running_var := rv'\<rparr>"
      by (auto simp: BatchNormLayer_get_output_def BatchNormLayer_batch_normalization_train_def
          bind_def split: sum.splits prod.splits)
    from train_running_Inr [OF run] have
      train: "batch_normalization_train x (gamma l) (beta l) (Axes (axes l)) (epsilon l)
                = Inr (out, mean, invstd)"
      and rm': "rm' = (running_mean l)
                  \<lparr>data := map (\<lambda>(r, mu). r * (1 - f) + mu * f)
                             (zip (data (running_mean l)) mus)\<rparr>"
      and rv': "rv' = (running_var l)
                  \<lparr>data := map (\<lambda>(r, v). r * (1 - f) + m / (m - 1) * v * f)
                             (zip (data (running_var l)) vs)\<rparr>"
      by (simp_all add: f_def m_def mus_def vs_def normalization_axes_def)
    from train_running_args [OF run] have
      ok: "param_ok x (axes l) (running_mean l)" "param_ok x (axes l) (running_var l)"
      using bn_args_ok_params [of x "axes l" "gamma l" "beta l" "running_mean l" "running_var l"
          "epsilon l"]
      by (simp_all add: normalization_axes_def)
    have state: "l' = l\<lparr>running_mean := (running_mean l)
                        \<lparr>data := map (\<lambda>(r, mu). r * (1 - f) + mu * f)
                                   (zip (data (running_mean l)) mus)\<rparr>,
                      running_var := (running_var l)
                        \<lparr>data := map (\<lambda>(r, v). r * (1 - f) + m / (m - 1) * v * f)
                                   (zip (data (running_var l)) vs)\<rparr>\<rparr>"
      using l' rm' rv' by simp
    have mean_step:
      "map (\<lambda>(new, old). new - old) (zip (data (running_mean l')) (data (running_mean l)))
         = map (\<lambda>(r, mu). f * (mu - r)) (zip (data (running_mean l)) mus)"
      using zip_update_diff [of f "data (running_mean l)" mus] by (simp add: state)
    have "map (\<lambda>(r, v). r * (1 - f) + m / (m - 1) * v * f) (zip (data (running_var l)) vs)
        = map (\<lambda>(r, u). r * (1 - f) + u * f)
            (zip (data (running_var l)) (map (\<lambda>v. m / (m - 1) * v) vs))"
      by (simp add: zip_map2 case_prod_unfold)
    moreover have "map (\<lambda>(r, v). f * (m / (m - 1) * v - r)) (zip (data (running_var l)) vs)
        = map (\<lambda>(r, u). f * (u - r))
            (zip (data (running_var l)) (map (\<lambda>v. m / (m - 1) * v) vs))"
      by (simp add: zip_map2 case_prod_unfold)
    ultimately have var_step:
      "map (\<lambda>(new, old). new - old) (zip (data (running_var l')) (data (running_var l)))
         = map (\<lambda>(r, v). f * (m / (m - 1) * v - r)) (zip (data (running_var l)) vs)"
      using zip_update_diff [of f "data (running_var l)" "map (\<lambda>v. m / (m - 1) * v) vs"]
      by (simp add: state)
    have wf_mean: "well_formed (running_mean l) \<longrightarrow>
        well_formed (running_mean l') \<and> length (data (running_mean l')) = length mus"
      using well_formed_update [OF _ ok(1), of mus] length_batch_means [of x "axes l"]
      by (simp add: state mus_def)
    have wf_var: "well_formed (running_var l) \<longrightarrow>
        well_formed (running_var l') \<and> length (data (running_var l')) = length vs"
      using well_formed_update [OF _ ok(2), of vs] length_batch_vars [of x "axes l"]
      by (simp add: state vs_def)
    from state mean_step var_step wf_mean wf_var train act show ?thesis
      by blast
  qed
  have returns: "bn_args_ok x (axes l) [gamma l, beta l, running_mean l, running_var l] (epsilon l) \<and>
      prod_list (shape x) \<noteq> 0 \<and>
      real (prod_list (shape x)) / real (prod_list (shape (gamma l))) \<noteq> 1 \<and>
      (\<forall>out. \<exists>y. call lib (activation l) out (call_kwargs l) = Inr y)
        \<longrightarrow> (\<exists>y l'. BatchNormLayer_get_output lib l x = Inr (y, l'))"
    using get_output_training_returns [OF assms, of x lib] by blast
  from returns update show ?thesis
    unfolding Let_def f_def [symmetric] m_def [symmetric] mus_def [symmetric] vs_def [symmetric]
    by blast
qed

theorem BatchNormLayer_training_update_witness:
  "training_flag BN_training \<and>
   bn_args_ok X_pair (axes BN_training)
     [gamma BN_training, beta BN_training, running_mean BN_training, running_var BN_training]
     (epsilon BN_training) \<and>
   well_formed (running_mean BN_training) \<and> well_formed (running_var BN_training) \<and>
   (\<exists>y l'. BatchNormLayer_get_output no_library BN_training X_pair = Inr (y, l')) \<and>
   BatchNormLayer_get_output no_library BN_training X_pair =
     Inr (array [2, 1, 1, 1] [- (3 / 5), 3 / 5],
          BN_training\<lparr>running_mean := array [1] [3 / 4000],
                       running_var := array [1] [9 / 800000]\<rparr>) \<and>
   well_formed (array [1] [3 / 4000]) \<and> well_formed (array [1] [9 / 800000]) \<and>
   batch_means X_pair (axes BN_training) = [3 / 400] \<and>
   batch_vars X_pair (axes BN_training) = [9 / 160000] \<and>
   real (prod_list (shape X_pair)) / real (prod_list (shape (gamma BN_training))) = 2"
proof -
  note update =
    BatchNormLayer_training_update [OF BN_training_conditions(1), of X_pair no_library]
  have "real (prod_list (shape X_pair)) / real (prod_list (shape (gamma BN_training))) \<noteq> 1"
    using BN_training_conditions(4) by simp
  with update BN_training_conditions(2,3,5)
  have returns: "\<exists>y l'. BatchNormLayer_get_output no_library BN_training X_pair = Inr (y, l')"
    by blast
  from update have "\<forall>y l'. BatchNormLayer_get_output no_library BN_training X_pair = Inr (y, l') \<longrightarrow>
      (well_formed (running_mean BN_training) \<longrightarrow> well_formed (running_mean l')) \<and>
      (well_formed (running_var BN_training) \<longrightarrow> well_formed (running_var l'))"
    unfolding Let_def by blast
  with BN_training_forward BN_training_well_formed
  have "well_formed (running_mean (BN_training\<lparr>running_mean := array [1] [3 / 4000],
                       running_var := array [1] [9 / 800000]\<rparr>)) \<and>
        well_formed (running_var (BN_training\<lparr>running_mean := array [1] [3 / 4000],
                       running_var := array [1] [9 / 800000]\<rparr>))"
    by blast
  then have kept: "well_formed (array [1] [3 / 4000]) \<and> well_formed (array [1] [9 / 800000])"
    by simp
  have stats: "batch_means X_pair (axes BN_training) = [3 / 400]"
    "batch_vars X_pair (axes BN_training) = [9 / 160000]"
    by (simp_all add: BN_training_def BN_fresh_def X_pair_stats del: One_nat_def)
  from BN_training_conditions(1,2,4) BN_training_well_formed returns BN_training_forward
    kept stats
  show ?thesis
    by blast
qed

text \<open>
  Claim C1 as stated fails for the running variance: on the batch \<open>X_pair\<close>, whose variance
  is \<open>9 / 160000\<close>, a fresh layer with the factor \<open>1 / 10\<close> ends with the running variance
  \<open>9 / 800000\<close>, twice \<open>0 * (1 - 1 / 10) + (9 / 160000) * (1 / 10)\<close>.
\<close>

theorem BatchNormLayer_running_var_counterexample:
  "training_flag BN_training \<and>
   BatchNormLayer_get_output no_library BN_training X_pair =
     Inr (array [2, 1, 1, 1] [- (3 / 5), 3 / 5],
          BN_training\<lparr>running_mean := array [1] [3 / 4000],
                       running_var := array [1] [9 / 800000]\<rparr>) \<and>
   running_average_factor BN_training = 1 / 10 \<and>
   data (running_var BN_training) = [0] \<and>
   batch_vars X_pair (axes BN_training) = [9 / 160000] \<and>
   data (running_var (BN_training\<lparr>running_mean := array [1] [3 / 4000],
                                  running_var := array [1] [9 / 800000]\<rparr>))
     \<noteq> map (\<lambda>(r, v). r * (1 - 1 / 10) + v * (1 / 10))
         (zip (data (running_var BN_training)) (batch_vars X_pair (axes BN_training)))"
  using BN_training_forward
  by (simp add: BN_training_def BN_fresh_def X_pair_stats X_pair_fields array_def
      del: One_nat_def)


subsection \<open>Batch renormalization in test mode\<close>

lemma sqrt_tiny: "sqrt (1 / 10000000000) = 1 / 100000"
  by (rule real_sqrt_unique) (simp_all add: power2_eq_square)

lemma BRN_fresh_init:
  "BatchRenormLayer_init Layer_init_plain [Some 1, Some 1, Some 1, Some 1] ''BRN'' (1 / 10000)
     1 0 (1 / 10) ''spatial'' (Name ''linear'') [] = Inr BRN_fresh"
  by code_simp

lemma BRN_fresh_fields:
  "axes BRN_fresh = [0, 2, 3]" "running_var BRN_fresh = np_zeros [1]"
  "running_mean BRN_fresh = np_zeros [1]" "r_max BRN_fresh = 1" "d_max BRN_fresh = 0"
  "gamma BRN_fresh = np_ones [1]" "beta BRN_fresh = np_zeros [1]"
  "epsilon BRN_fresh = 1 / 10000" "training_flag BRN_fresh = False"
  "activation BRN_fresh = Linear"
  by (simp_all add: BRN_fresh_def)

lemma X_one_batch_statistics:
  "T_mean X_one [0, 2, 3] False = Inr (array [1] [1])"
  "T_var X_one [0, 2, 3] False = Inr (array [1] [0])"
  "add_scalar (array [1] [0]) (1 / 10 ^ 10) = array [1] [1 / 10000000000]"
  "add_scalar (np_zeros [1]) (1 / 10 ^ 10) = array [1] [1 / 10000000000]"
  by code_simp+

lemma X_one_std: "T_sqrt (array [1] [1 / 10000000000]) = Inr (array [1] [1 / 100000])"
  by (simp add: T_sqrt_def array_def elemwise_def sqrt_tiny)

lemma X_one_corrections:
  "T_true_div (array [1] [1 / 100000]) (array [1] [1 / 100000]) = Inr (array [1] [1])"
  "T_clip (array [1] [1]) (- 1) 1 = array [1] [1]"
  "elemwise2 (-) (array [1] [1]) (np_zeros [1]) = Inr (array [1] [1])"
  "T_true_div (array [1] [1]) (array [1] [1 / 100000]) = Inr (array [1] [100000])"
  "T_clip (array [1] [100000]) (- 0) 0 = array [1] [0]"
  "elemwise2 (*) (array [1] [0]) (array [1] [1 / 100000]) = Inr (array [1] [0])"
  "add_scalar (array [1] [1]) (1 / 10 ^ 10) = array [1] [10000000001 / 10000000000]"
  "T_true_div (array [1] [0]) (array [1] [10000000001 / 10000000000]) = Inr (array [1] [0])"
  "elemwise2 (-) (array [1] [1]) (array [1] [0]) = Inr (array [1] [1])"
  "T_true_div (array [1] [1 / 100000]) (array [1] [10000000001 / 10000000000])
     = Inr (array [1] [100000 / 10000000001])"
  "T_sqr (array [1] [100000 / 10000000001]) = array [1] [10000000000 / 100000000020000000001]"
  by code_simp+

lemma X_one_args:
  "bn_args_ok X_one [0, 2, 3]
     [np_ones [1], np_zeros [1], array [1] [1],
      array [1] [10000000000 / 100000000020000000001]] (1 / 10000)"
  "bn_args_ok X_one [0, 2, 3] [np_ones [1], np_zeros [1], np_zeros [1], np_zeros [1]] (1 / 10000)"
  by code_simp+

lemma X_one_fields:
  "shape X_one = [1, 1, 1, 1]" "broadcastable X_one = [False, False, False, False]"
  "elem X_one [0, 0, 0, 0] = 1"
  "param_index [0, 2, 3] (array [1] [1]) [0, 0, 0, 0] = [0]"
  "param_index [0, 2, 3] (np_zeros [1]) [0, 0, 0, 0] = [0]"
  "elem (array [1] [1]) [0] = 1" "elem (np_zeros [1]) [0] = 0"
  "indices [1, 1, 1, 1] = [[0, 0, 0, 0]]"
  "data (array [1] [10000000000 / 100000000020000000001])
     = [10000000000 / 100000000020000000001]"
  "data (np_ones [1]) = [1]" "data (np_zeros [1]) = [0]"
  by code_simp+

lemma X_one_scale:
  "param_index [0, 2, 3] (np_ones [1]\<lparr>data := [s]\<rparr>) [0, 0, 0, 0] = [0]"
  "elem (np_ones [1]\<lparr>data := [s]\<rparr>) [0] = s"
  by (simp_all add: param_index_def np_ones_def array_def kept_def elem_def)

lemma X_one_normalize_batch:
  "normalize X_one [0, 2, 3] (array [1] [1]) (np_ones [1]\<lparr>data := [s]\<rparr>) (np_zeros [1])
     = array [1, 1, 1, 1] [0]"
  unfolding normalize_def tabulate_def
  by (simp add: X_one_fields X_one_scale del: One_nat_def indices.simps) (simp add: array_def)

lemma X_one_normalize_running:
  "normalize X_one [0, 2, 3] (np_zeros [1]) (np_ones [1]\<lparr>data := [s]\<rparr>) (np_zeros [1])
     = array [1, 1, 1, 1] [s]"
  unfolding normalize_def tabulate_def
  by (simp add: X_one_fields X_one_scale del: One_nat_def indices.simps) (simp add: array_def)

lemma X_one_positive:
  "\<not> (\<exists>v \<in> set [10000000000 / 100000000020000000001 :: real]. v + 1 / 10000 \<le> 0)"
  "\<not> (\<exists>v \<in> set [0 :: real]. v + 1 / 10000 \<le> 0)"
  by simp_all

lemma BRN_fresh_forward:
  "BatchRenormLayer_get_output lib BRN_fresh X_one = Inr (array [1, 1, 1, 1] [0], BRN_fresh)"
  by (simp only: BatchRenormLayer_get_output_def BRN_fresh_fields bind_Inr Let_def
      X_one_batch_statistics X_one_std X_one_corrections X_one_args X_one_fields
      X_one_normalize_batch X_one_positive batch_normalization_test_def normalization_axes_def
      call_Linear bn_axes.case if_False if_True not_True_eq_False not_False_eq_True
      length_Cons list.size zip.simps list.map split_conv list.case)

lemma BRN_fresh_running_formula:
  "batch_normalization_test X_one (gamma BRN_fresh) (beta BRN_fresh) (running_mean BRN_fresh)
     (running_var BRN_fresh) (Axes (axes BRN_fresh)) (epsilon BRN_fresh)
   = Inr (array [1, 1, 1, 1] [100])"
  by (simp only: BRN_fresh_fields batch_normalization_test_def normalization_axes_def Let_def
      X_one_args X_one_fields X_one_positive X_one_normalize_running bn_axes.case if_False
      if_True not_True_eq_False not_False_eq_True length_Cons list.size zip.simps list.map
      split_conv list.case)
     (simp add: sqrt_1_10000)

text \<open>
  Claim C3, on the code. \<open>BRN_fresh\<close> is in test mode, with the running mean 0 and the
  running variance 0, and is given the batch \<open>X_one\<close> of one sample of value 1. The forward
  pass returns 0 and leaves the layer as it is: it has normalized with the mean of the batch,
  which is the sample itself. Normalizing with the running statistics,
  \<open>(x - running_mean) / sqrt(running_var + epsilon) * scale + shift\<close>, gives 100.
\<close>

theorem BatchRenormLayer_test_mode_uses_batch_statistics:
  "training_flag BRN_fresh = False \<and>
   BatchRenormLayer_get_output lib BRN_fresh X_one = Inr (array [1, 1, 1, 1] [0], BRN_fresh) \<and>
   batch_normalization_test X_one (gamma BRN_fresh) (beta BRN_fresh) (running_mean BRN_fresh)
     (running_var BRN_fresh) (Axes (axes BRN_fresh)) (epsilon BRN_fresh)
   = Inr (array [1, 1, 1, 1] [100])"
  using BRN_fresh_forward BRN_fresh_running_formula by (simp add: BRN_fresh_fields)

subsection \<open>Group normalization with as many groups as channels\<close>

lemma sqrt_169_160000: "sqrt (169 / 160000) = 13 / 400"
  by (rule real_sqrt_unique) (simp_all add: power2_eq_square)

lemma batch_normalization_train_eval:
  assumes "normalization_axes ax (length (shape x)) = as"
    and "bn_args_ok x as [g, b] eps"
    and "prod_list (shape x) \<noteq> 0"
    and "batch_means x as = mus"
    and "map (\<lambda>v. 1 / sqrt (v + eps)) (batch_vars x as) = invs"
    and "normalize x as (g\<lparr>data := mus\<rparr>)
           (g\<lparr>data := map (\<lambda>(s, i). s * i) (zip (data g) invs)\<rparr>) b = out"
  shows "batch_normalization_train x g b ax eps
           = Inr (out, g\<lparr>data := mus\<rparr>, g\<lparr>data := invs\<rparr>)"
  using assms by (simp add: batch_normalization_train_def Let_def)

lemma GN_instance_init:
  "GroupNormLayer_init Layer_init_plain [Some 1, Some 2, Some 1, Some 2] ''GN'' 2 (1 / 1000)
     (Name ''linear'') [] = Inr GN_instance"
  by code_simp

lemma GN_instance_fields:
  "groups GN_instance = 2" "input_shape GN_instance = [Some 1, Some 2, Some 1, Some 2]"
  "activation GN_instance = Linear" "call_kwargs GN_instance = []"
  "epsilon GN_instance = 1 / 1000"
  by (simp_all add: GN_instance_def call_kwargs_def)

lemma X_rows_mean:
  "T_mean X_rows [2, 3] True
     = Inr \<lparr>shape = [1, 2, 1, 1], broadcastable = [False, False, True, True], data = [0, 0]\<rparr>"
  by code_simp

lemma X_rows_instance_normalized:
  "batch_normalization_train X_rows
     (T_ones_like \<lparr>shape = [1, 2, 1, 1], broadcastable = [False, False, True, True],
                    data = [0, 0]\<rparr>)
     (T_zeros_like \<lparr>shape = [1, 2, 1, 1], broadcastable = [False, False, True, True],
                     data = [0, 0]\<rparr>)
     (Axes [2, 3]) (1 / 10000)
   = Inr (array [1, 2, 1, 2] [3 / 5, - (3 / 5), 3 / 5, - (3 / 5)],
          (T_ones_like \<lparr>shape = [1, 2, 1, 1], broadcastable = [False, False, True, True],
                    data = [0, 0]\<rparr>)\<lparr>data := [0, 0]\<rparr>,
          (T_ones_like \<lparr>shape = [1, 2, 1, 1], broadcastable = [False, False, True, True],
                    data = [0, 0]\<rparr>)\<lparr>data := [80, 80]\<rparr>)"
proof (rule batch_normalization_train_eval [where as = "[2, 3]"])
  show "normalization_axes (Axes [2, 3]) (length (shape X_rows)) = [2, 3]"
    by code_simp
  show "bn_args_ok X_rows [2, 3]
     [T_ones_like \<lparr>shape = [1, 2, 1, 1], broadcastable = [False, False, True, True],
                    data = [0, 0]\<rparr>,
      T_zeros_like \<lparr>shape = [1, 2, 1, 1], broadcastable = [False, False, True, True],
                     data = [0, 0]\<rparr>] (1 / 10000)"
    by code_simp
  show "prod_list (shape X_rows) \<noteq> 0"
    by code_simp
  show "batch_means X_rows [2, 3] = [0, 0]"
    by code_simp
  have "batch_vars X_rows [2, 3] = [9 / 160000, 9 / 160000]"
    by code_simp
  then show "map (\<lambda>v. 1 / sqrt (v + 1 / 10000)) (batch_vars X_rows [2, 3]) = [80, 80]"
    by (simp add: sqrt_1_6400)
  show "normalize X_rows [2, 3]
     ((T_ones_like \<lparr>shape = [1, 2, 1, 1], broadcastable = [False, False, True, True],
                    data = [0, 0]\<rparr>)\<lparr>data := [0, 0]\<rparr>)
     ((T_ones_like \<lparr>shape = [1, 2, 1, 1], broadcastable = [False, False, True, True],
                    data = [0, 0]\<rparr>)
        \<lparr>data := map (\<lambda>(s, i). s * i)
           (zip (data (T_ones_like \<lparr>shape = [1, 2, 1, 1],
                   broadcastable = [False, False, True, True], data = [0, 0]\<rparr>)) [80, 80])\<rparr>)
     (T_zeros_like \<lparr>shape = [1, 2, 1, 1], broadcastable = [False, False, True, True],
                     data = [0, 0]\<rparr>)
    = array [1, 2, 1, 2] [3 / 5, - (3 / 5), 3 / 5, - (3 / 5)]"
    by code_simp
qed

lemma GN_instance_params:
  "dimshuffle (gamma GN_instance) [None, Some 0, None, None]
     = Inr \<lparr>shape = [1, 2, 1, 1], broadcastable = [True, False, True, True], data = [1, 1]\<rparr>"
  "dimshuffle (beta GN_instance) [None, Some 0, None, None]
     = Inr \<lparr>shape = [1, 2, 1, 1], broadcastable = [True, False, True, True], data = [0, 0]\<rparr>"
  "groups_are_channels GN_instance = Inr True"
  by code_simp+

lemma GN_instance_scale_shift:
  "scale_shift
     \<lparr>shape = [1, 2, 1, 1], broadcastable = [True, False, True, True], data = [1, 1]\<rparr>
     \<lparr>shape = [1, 2, 1, 1], broadcastable = [True, False, True, True], data = [0, 0]\<rparr>
     (array [1, 2, 1, 2] [3 / 5, - (3 / 5), 3 / 5, - (3 / 5)])
     = Inr (array [1, 2, 1, 2] [3 / 5, - (3 / 5), 3 / 5, - (3 / 5)])"
  "scale_shift
     \<lparr>shape = [1, 2, 1, 1], broadcastable = [True, False, True, True], data = [1, 1]\<rparr>
     \<lparr>shape = [1, 2, 1, 1], broadcastable = [True, False, True, True], data = [0, 0]\<rparr>
     (array [1, 2, 1, 2] [3 / 13, - (3 / 13), 3 / 13, - (3 / 13)])
     = Inr (array [1, 2, 1, 2] [3 / 13, - (3 / 13), 3 / 13, - (3 / 13)])"
  by code_simp+

lemma GN_instance_forward:
  "GroupNormLayer_get_output lib GN_instance X_rows
     = Inr (array [1, 2, 1, 2] [3 / 5, - (3 / 5), 3 / 5, - (3 / 5)])"
  by (simp add: GroupNormLayer_get_output_def GroupNormLayer_instance_path_def GN_instance_fields
      GN_instance_params bind_Inr X_rows_mean X_rows_instance_normalized
      GN_instance_scale_shift call_Linear del: One_nat_def)

lemma X_rows_grouped:
  "reshape X_rows [Some 1, Some 2, None, Some 1, Some 2]
     = Inr \<lparr>shape = [1, 2, 1, 1, 2], broadcastable = [False, False, False, False, False],
            data = [3 / 400, - (3 / 400), 3 / 400, - (3 / 400)]\<rparr>"
  "T_mean \<lparr>shape = [1, 2, 1, 1, 2], broadcastable = [False, False, False, False, False],
            data = [3 / 400, - (3 / 400), 3 / 400, - (3 / 400)]\<rparr> [2, 3, 4] True
     = Inr \<lparr>shape = [1, 2, 1, 1, 1], broadcastable = [False, False, True, True, True],
            data = [0, 0]\<rparr>"
  "T_var \<lparr>shape = [1, 2, 1, 1, 2], broadcastable = [False, False, False, False, False],
            data = [3 / 400, - (3 / 400), 3 / 400, - (3 / 400)]\<rparr> [2, 3, 4] True
     = Inr \<lparr>shape = [1, 2, 1, 1, 1], broadcastable = [False, False, True, True, True],
            data = [9 / 160000, 9 / 160000]\<rparr>"
  "elemwise2 (-) \<lparr>shape = [1, 2, 1, 1, 2], broadcastable = [False, False, False, False, False],
            data = [3 / 400, - (3 / 400), 3 / 400, - (3 / 400)]\<rparr>
       \<lparr>shape = [1, 2, 1, 1, 1], broadcastable = [False, False, True, True, True],
            data = [0, 0]\<rparr>
     = Inr \<lparr>shape = [1, 2, 1, 1, 2], broadcastable = [False, False, False, False, False],
            data = [3 / 400, - (3 / 400), 3 / 400, - (3 / 400)]\<rparr>"
  "add_scalar \<lparr>shape = [1, 2, 1, 1, 1], broadcastable = [False, False, True, True, True],
            data = [9 / 160000, 9 / 160000]\<rparr> (1 / 1000)
     = \<lparr>shape = [1, 2, 1, 1, 1], broadcastable = [False, False, True, True, True],
            data = [169 / 160000, 169 / 160000]\<rparr>"
  "T_true_div \<lparr>shape = [1, 2, 1, 1, 2], broadcastable = [False, False, False, False, False],
            data = [3 / 400, - (3 / 400), 3 / 400, - (3 / 400)]\<rparr>
       \<lparr>shape = [1, 2, 1, 1, 1], broadcastable = [False, False, True, True, True],
            data = [13 / 400, 13 / 400]\<rparr>
     = Inr \<lparr>shape = [1, 2, 1, 1, 2], broadcastable = [False, False, False, False, False],
            data = [3 / 13, - (3 / 13), 3 / 13, - (3 / 13)]\<rparr>"
  "reshape \<lparr>shape = [1, 2, 1, 1, 2], broadcastable = [False, False, False, False, False],
            data = [3 / 13, - (3 / 13), 3 / 13, - (3 / 13)]\<rparr>
       [Some 1, Some 2, Some 1, Some 2]
     = Inr (array [1, 2, 1, 2] [3 / 13, - (3 / 13), 3 / 13, - (3 / 13)])"
  by code_simp+

lemma X_rows_grouped_std:
  "T_sqrt \<lparr>shape = [1, 2, 1, 1, 1], broadcastable = [False, False, True, True, True],
            data = [169 / 160000, 169 / 160000]\<rparr>
     = Inr \<lparr>shape = [1, 2, 1, 1, 1], broadcastable = [False, False, True, True, True],
            data = [13 / 400, 13 / 400]\<rparr>"
  by (simp add: T_sqrt_def elemwise_def sqrt_169_160000)

lemma X_rows_shape: "shape X_rows = [1, 2, 1, 2]"
  by code_simp

lemma GN_instance_group_path:
  "GroupNormLayer_group_path GN_instance
     \<lparr>shape = [1, 2, 1, 1], broadcastable = [True, False, True, True], data = [1, 1]\<rparr>
     \<lparr>shape = [1, 2, 1, 1], broadcastable = [True, False, True, True], data = [0, 0]\<rparr> X_rows
     = Inr (array [1, 2, 1, 2] [3 / 13, - (3 / 13), 3 / 13, - (3 / 13)])"
  by (simp add: GroupNormLayer_group_path_def GN_instance_fields X_rows_shape bind_Inr
      X_rows_grouped X_rows_grouped_std GN_instance_scale_shift del: One_nat_def)

text \<open>
  Claim C4, on the code. \<open>GN_instance\<close> has as many groups as channels and the \<open>epsilon\<close>
  \<open>1e-3\<close>. On \<open>X_rows\<close> its forward pass, which takes the dedicated path, returns \<open>0.6\<close> and
  \<open>-0.6\<close>; the general grouped path with the same groups, \<open>epsilon\<close>, scale and shift, followed
  by the same activation, returns \<open>3 / 13\<close> and \<open>-3 / 13\<close>.
\<close>

theorem GroupNormLayer_instance_path_ignores_epsilon:
  "groups GN_instance = 2 \<and> input_shape GN_instance = [Some 1, Some 2, Some 1, Some 2] \<and>
   epsilon GN_instance = 1 / 1000 \<and>
   GroupNormLayer_get_output lib GN_instance X_rows
     = Inr (array [1, 2, 1, 2] [3 / 5, - (3 / 5), 3 / 5, - (3 / 5)]) \<and>
   bind (dimshuffle (gamma GN_instance) [None, Some 0, None, None]) (\<lambda>g.
   bind (dimshuffle (beta GN_instance) [None, Some 0, None, None]) (\<lambda>b.
   bind (GroupNormLayer_group_path GN_instance g b X_rows) (\<lambda>output.
     call lib (activation GN_instance) output (call_kwargs GN_instance))))
     = Inr (array [1, 2, 1, 2] [3 / 13, - (3 / 13), 3 / 13, - (3 / 13)])"
  using GN_instance_forward [of lib] GN_instance_group_path
  by (simp add: GN_instance_fields GN_instance_params bind_Inr call_Linear del: One_nat_def)

subsection \<open>The transform of decorrelated batch normalization\<close>

lemma matrix_dot:
  "T_dot \<lparr>shape = [2, 2], broadcastable = [False, False], data = [a, b, c, d]\<rparr>
         \<lparr>shape = [2, 2], broadcastable = [False, False], data = [p, q, r, s]\<rparr>
     = Inr \<lparr>shape = [2, 2], broadcastable = [False, False],
            data = [a * p + b * r, a * q + b * s, c * p + d * r, c * q + d * s]\<rparr>"
proof -
  have idx: "indices [2, 2] = [[0, 0], [0, 1], [1, 0], [1, 1]]" and upt: "[0..<2] = [0, 1]"
    by code_simp+
  show ?thesis
    unfolding T_dot_def tabulate_def
    by (simp add: idx upt elem_def del: indices.simps One_nat_def)
qed

lemma matrix_transpose:
  "transpose_T \<lparr>shape = [2, 2], broadcastable = [False, False], data = [a, b, c, d]\<rparr>
     = Inr \<lparr>shape = [2, 2], broadcastable = [False, False], data = [a, c, b, d]\<rparr>"
proof -
  have idx: "indices [2, 2] = [[0, 0], [0, 1], [1, 0], [1, 1]]"
    by code_simp
  show ?thesis
    unfolding transpose_T_def tabulate_def
    by (simp add: idx elem_def del: indices.simps One_nat_def)
qed

lemma matrix_cases:
  assumes "shape D = [2, 2]" and "broadcastable D = [False, False]" and "length (data D) = 4"
  obtains a b c d where
    "D = \<lparr>shape = [2, 2], broadcastable = [False, False], data = [a, b, c, d]\<rparr>"
proof -
  from assms(3) obtain a b c d where "data D = [a, b, c, d]"
    by (auto simp: length_Suc_conv numeral_eq_Suc)
  with assms(1,2) have
    "D = \<lparr>shape = [2, 2], broadcastable = [False, False], data = [a, b, c, d]\<rparr>"
    by (cases D) simp
  then show thesis ..
qed

lemma X_channels_steps:
  "length (shape X_channels) = 4" "shape X_channels ! 0 = 1"
  "dimshuffle X_channels [Some 1, Some 0, Some 2, Some 3]
     = Inr (array [2, 1, 2, 1] [4, 0, 2, - 2])"
  "flatten2 (array [2, 1, 2, 1] [4, 0, 2, - 2]) = Inr (array [2, 2] [4, 0, 2, - 2])"
  "T_mean (array [2, 2] [4, 0, 2, - 2]) [1] False = Inr (array [2] [2, 0])"
  "elemwise2 (-) (array [2, 2] [4, 0, 2, - 2]) (array [2] [2, 0])
     = Inr (array [2, 2] [2, 0, 0, - 2])"
  "transpose_T (array [2, 2] [2, 0, 0, - 2]) = Inr (array [2, 2] [2, 0, 0, - 2])"
  "T_dot (array [2, 2] [2, 0, 0, - 2]) (array [2, 2] [2, 0, 0, - 2])
     = Inr (array [2, 2] [4, 0, 0, 4])"
  "mul_scalar 1 (array [2, 2] [4, 0, 0, 4]) = Sigma_4"
  "T_nlinalg_diag (array [2] [2, 2]) = Inr (array [2, 2] [2, 0, 0, 2])"
  by code_simp+

lemma sqrt_eigenvalues: "T_sqrt (array [2] [4, 4]) = Inr (array [2] [2, 2])"
  by (simp add: T_sqrt_def elemwise_def array_def)

lemma DBN_transform:
  assumes eigh: "eigh Sigma_4 = Inr (array [2] [4, 4], D)"
    and D: "shape D = [2, 2]" "broadcastable D = [False, False]" "length (data D) = 4"
    and orth: "bind (transpose_T D) (T_dot D) = Inr (array [2, 2] [1, 0, 0, 1])"
  shows "DecorrBatchNormLayer_transform eigh X_channels
           = Inr (array [2, 2] [4, 0, 2, - 2], Sigma_4, array [2, 2] [2, 0, 0, 2])"
proof -
  from D obtain a b c d where
    Dm: "D = \<lparr>shape = [2, 2], broadcastable = [False, False], data = [a, b, c, d]\<rparr>"
    by (rule matrix_cases)
  from orth have o: "a * a + b * b = 1" "a * c + b * d = 0" "c * c + d * d = 1"
    by (simp_all add: Dm matrix_transpose bind_Inr matrix_dot array_def)
  have DL: "T_dot D (array [2, 2] [2, 0, 0, 2])
      = Inr \<lparr>shape = [2, 2], broadcastable = [False, False],
             data = [a * 2, b * 2, c * 2, d * 2]\<rparr>"
    by (simp add: Dm array_def matrix_dot)
  have Z: "T_dot \<lparr>shape = [2, 2], broadcastable = [False, False],
             data = [a * 2, b * 2, c * 2, d * 2]\<rparr>
            \<lparr>shape = [2, 2], broadcastable = [False, False], data = [a, c, b, d]\<rparr>
      = Inr (array [2, 2] [2, 0, 0, 2])"
    using o by (simp add: matrix_dot array_def algebra_simps)
  show ?thesis
    by (simp add: DecorrBatchNormLayer_transform_def X_channels_steps bind_Inr eigh
        sqrt_eigenvalues DL Z Let_def del: One_nat_def)
       (simp add: Dm matrix_transpose bind_Inr Z)
qed

lemma DBN_layer_init:
  "bind (DecorrBatchNormLayer_init Layer_init_plain [Some 1, Some 2, Some 2, Some 1] ''DBN''
           (1 / 10000) (1 / 10) (Name ''linear'') False [])
     (\<lambda>l. Inr (l\<lparr>training_flag := True\<rparr>)) = Inr DBN_layer"
  by code_simp

lemma DBN_products:
  "T_dot (array [2, 2] [2, 0, 0, 2]) (array [2, 2] [4, 0, 2, - 2])
     = Inr (array [2, 2] [8, 0, 4, - 4])"
  "transpose_T (array [2, 2] [8, 0, 4, - 4]) = Inr (array [2, 2] [8, 4, 0, - 4])"
  "bind (T_dot (array [2, 2] [2, 0, 0, 2]) Sigma_4) (\<lambda>ZS. T_dot ZS (array [2, 2] [2, 0, 0, 2]))
     = Inr (array [2, 2] [16, 0, 0, 16])"
  "bind (T_dot (array [2, 2] [1 / 2, 0, 0, 1 / 2]) Sigma_4)
      (\<lambda>ZS. T_dot ZS (array [2, 2] [1 / 2, 0, 0, 1 / 2]))
     = Inr (array [2, 2] [1, 0, 0, 1])"
  by code_simp+

lemma DBN_layer_refuses:
  "\<not> bn_args_ok (array [2, 2] [8, 4, 0, - 4]) [0]
       [gamma DBN_layer, beta DBN_layer, running_mean DBN_layer, running_var DBN_layer]
       (epsilon DBN_layer)"
  "training_flag DBN_layer"
  by code_simp+

lemma DBN_layer_forward:
  assumes "DecorrBatchNormLayer_transform eigh X_channels
             = Inr (array [2, 2] [4, 0, 2, - 2], Sigma_4, array [2, 2] [2, 0, 0, 2])"
  shows "DecorrBatchNormLayer_get_output lib eigh DBN_layer X_channels = Inl ValueError"
proof -
  have "axes DBN_layer = [0]"
    by (simp add: DBN_layer_def)
  then have "BatchNormLayer_batch_normalization_train DBN_layer (array [2, 2] [8, 4, 0, - 4])
      = Inl ValueError"
    using DBN_layer_refuses(1)
    by (simp add: BatchNormLayer_batch_normalization_train_def
        batch_normalization_train_running_def normalization_axes_def bind_def Let_def)
  then show ?thesis
    by (simp add: DecorrBatchNormLayer_get_output_def assms bind_Inr DBN_products
        DBN_layer_refuses(2)) (simp add: bind_def)
qed

text \<open>
  Claim C5, on the code. The layer \<open>DBN_layer\<close> is given the batch \<open>X_channels\<close>, for which
  it computes the matrix \<open>Sigma_4\<close>; \<open>eigh\<close> is any eigensolver that returns for \<open>Sigma_4\<close> its
  eigenvalues 4 and 4 and an orthogonal matrix \<open>D\<close>. The transform the layer builds from them
  is twice the identity, a square root of \<open>Sigma_4\<close>: \<open>Z Sigma Z\<close> is 16 times the identity.
  The inverse square root is half the identity, for which \<open>Z Sigma Z\<close> is the identity. The
  forward pass then raises \<open>ValueError\<close>: the scale of the layer has the three dimensions of
  \<open>input_shape[1:]\<close>, the transposed matrix that it is to normalize has two.
\<close>

theorem DecorrBatchNormLayer_transform_is_square_root:
  assumes "eigh Sigma_4 = Inr (array [2] [4, 4], D)"
    and "shape D = [2, 2]" and "broadcastable D = [False, False]" and "length (data D) = 4"
    and "bind (transpose_T D) (T_dot D) = Inr (array [2, 2] [1, 0, 0, 1])"
  shows "DecorrBatchNormLayer_transform eigh X_channels
           = Inr (array [2, 2] [4, 0, 2, - 2], Sigma_4, array [2, 2] [2, 0, 0, 2]) \<and>
         bind (T_dot (array [2, 2] [2, 0, 0, 2]) Sigma_4)
             (\<lambda>ZS. T_dot ZS (array [2, 2] [2, 0, 0, 2]))
           = Inr (array [2, 2] [16, 0, 0, 16]) \<and>
         bind (T_dot (array [2, 2] [1 / 2, 0, 0, 1 / 2]) Sigma_4)
             (\<lambda>ZS. T_dot ZS (array [2, 2] [1 / 2, 0, 0, 1 / 2]))
           = Inr (array [2, 2] [1, 0, 0, 1]) \<and>
         DecorrBatchNormLayer_get_output lib eigh DBN_layer X_channels = Inl ValueError"
proof -
  have transform: "DecorrBatchNormLayer_transform eigh X_channels
      = Inr (array [2, 2] [4, 0, 2, - 2], Sigma_4, array [2, 2] [2, 0, 0, 2])"
    using assms by (rule DBN_transform [where eigh = eigh and D = D])
  have "DecorrBatchNormLayer_get_output lib eigh DBN_layer X_channels = Inl ValueError"
    using transform by (rule DBN_layer_forward [where eigh = eigh])
  with transform DBN_products(3,4) show ?thesis
    by simp
qed

theorem DecorrBatchNormLayer_transform_is_square_root_witness:
  "eigh_Sigma_4 Sigma_4 = Inr (array [2] [4, 4], array [2, 2] [1, 0, 0, 1]) \<and>
   bind (transpose_T (array [2, 2] [1, 0, 0, 1])) (T_dot (array [2, 2] [1, 0, 0, 1]))
     = Inr (array [2, 2] [1, 0, 0, 1]) \<and>
   DecorrBatchNormLayer_transform eigh_Sigma_4 X_channels
     = Inr (array [2, 2] [4, 0, 2, - 2], Sigma_4, array [2, 2] [2, 0, 0, 2]) \<and>
   DecorrBatchNormLayer_get_output no_library eigh_Sigma_4 DBN_layer X_channels = Inl ValueError"
proof -
  have orth: "bind (transpose_T (array [2, 2] [1, 0, 0, 1])) (T_dot (array [2, 2] [1, 0, 0, 1]))
      = Inr (array [2, 2] [1, 0, 0, 1])"
    by code_simp
  have shp: "shape (array [2, 2] [1, 0, 0, 1]) = [2, 2]"
    "broadcastable (array [2, 2] [1, 0, 0, 1]) = [False, False]"
    "length (data (array [2, 2] [1, 0, 0, 1])) = 4"
    by code_simp+
  have eigh: "eigh_Sigma_4 Sigma_4 = Inr (array [2] [4, 4], array [2, 2] [1, 0, 0, 1])"
    by (simp add: eigh_Sigma_4_def)
  from DecorrBatchNormLayer_transform_is_square_root
    [where eigh = eigh_Sigma_4 and D = "array [2, 2] [1, 0, 0, 1]" and lib = no_library,
      OF eigh shp orth] eigh orth
  show ?thesis by simp
qed

end
